theory Spec2Isabelle
  imports Complex_Main
begin

section \<open>JavaScript strings and the regular expressions of the repository\<close>

text \<open>
  A JavaScript string is a sequence of UTF-16 code units. The model uses \<^typ>\<open>string\<close>:
  one \<^typ>\<open>char\<close> per code unit, so the strings covered are those whose code units lie
  below 256, and \<open>length\<close> is JavaScript's \<open>.length\<close> on them.
\<close>

definition code :: "char \<Rightarrow> nat" where
  "code c = of_char c"

definition in_range :: "char \<Rightarrow> char \<Rightarrow> char \<Rightarrow> bool" where
  "in_range lo hi c = (code lo \<le> code c \<and> code c \<le> code hi)"

text \<open>White space and line terminators with a code unit below 256: what \<open>\s\<close> matches
  and what \<open>String.prototype.trim\<close> strips.\<close>

definition isSpace :: "char \<Rightarrow> bool" where
  "isSpace c = (code c = 9 \<or> code c = 10 \<or> code c = 11 \<or> code c = 12 \<or> code c = 13
                \<or> code c = 32 \<or> code c = 160)"

definition trim :: "string \<Rightarrow> string" where
  "trim s = rev (dropWhile isSpace (rev (dropWhile isSpace s)))"

text \<open>\<open>String.prototype.toLowerCase\<close> on code units below 256: the ASCII capitals and the
  Latin-1 capitals (0xC0 to 0xDE without the multiplication sign 0xD7) move up by 32.\<close>

definition lowerChar :: "char \<Rightarrow> char" where
  "lowerChar c = (if (65 \<le> code c \<and> code c \<le> 90) \<or> (192 \<le> code c \<and> code c \<le> 222 \<and> code c \<noteq> 215)
                  then char_of (code c + 32) else c)"

definition toLowerCase :: "string \<Rightarrow> string" where
  "toLowerCase s = map lowerChar s"

text \<open>The other letter case of an ASCII letter, for patterns with the \<open>i\<close> flag. Without the
  \<open>u\<close> flag no code unit from 128 on is ever identified with an ASCII letter.\<close>

definition upperAscii :: "char \<Rightarrow> char" where
  "upperAscii c = (if 97 \<le> code c \<and> code c \<le> 122 then char_of (code c - 32) else c)"

definition lowerAscii :: "char \<Rightarrow> char" where
  "lowerAscii c = (if 65 \<le> code c \<and> code c \<le> 90 then char_of (code c + 32) else c)"

fun startsWith :: "string \<Rightarrow> string \<Rightarrow> bool" where
  "startsWith s [] = True"
| "startsWith [] (p # ps) = False"
| "startsWith (c # cs) (p # ps) = (c = p \<and> startsWith cs ps)"

text \<open>\<open>s.includes(p)\<close>: \<open>p\<close> occurs in \<open>s\<close> as a contiguous run.\<close>

fun str_includes :: "string \<Rightarrow> string \<Rightarrow> bool" where
  "str_includes [] p = (p = [])"
| "str_includes (c # cs) p = (startsWith (c # cs) p \<or> str_includes cs p)"

subsection \<open>A backtracking matcher\<close>

text \<open>
  The patterns of the repository use character classes, concatenation, alternation and
  greedy bounded repetition only. \<open>rmatch r s\<close> lists what is left of \<open>s\<close> after each way
  of matching \<open>r\<close> at the start of \<open>s\<close>, in the order in which a backtracking matcher tries
  them (left alternative first, longest repetition first); the head of the list is the match
  JavaScript reports.
\<close>

datatype cls = Ch char | Rng char char | Digit | WordCh | Space

fun cls_has :: "cls \<Rightarrow> char \<Rightarrow> bool" where
  "cls_has (Ch a) c = (c = a)"
| "cls_has (Rng lo hi) c = in_range lo hi c"
| "cls_has Digit c = in_range CHR ''0'' CHR ''9'' c"
| "cls_has WordCh c = (in_range CHR ''a'' CHR ''z'' c \<or> in_range CHR ''A'' CHR ''Z'' c
                       \<or> in_range CHR ''0'' CHR ''9'' c \<or> c = CHR ''_'')"
| "cls_has Space c = isSpace c"

datatype re =
    Eps
  | In "cls list"
  | NotIn "cls list"
  | Cat re re
  | Or re re
  | Rep re nat "nat option"

text \<open>\<open>rep f lo hi n s\<close>: between \<open>lo\<close> and \<open>hi\<close> rounds of \<open>f\<close>, as many as possible first.
  A round that consumes nothing is not repeated; \<open>n\<close> bounds the number of rounds and is
  the length of the subject, which is enough because every round consumes.\<close>

fun rep :: "(string \<Rightarrow> string list) \<Rightarrow> nat \<Rightarrow> nat option \<Rightarrow> nat \<Rightarrow> string \<Rightarrow> string list" where
  "rep f lo hi 0 s = (if lo = 0 then [s] else [])"
| "rep f lo hi (Suc n) s =
     (if hi = Some 0 then [s]
      else concat (map (rep f (lo - 1) (map_option (\<lambda>h. h - 1) hi) n)
                       (filter (\<lambda>t. length t < length s) (f s)))
           @ (if lo = 0 then [s] else []))"

fun rmatch :: "re \<Rightarrow> string \<Rightarrow> string list" where
  "rmatch Eps s = [s]"
| "rmatch (In cs) s = (case s of [] \<Rightarrow> [] | c # t \<Rightarrow> if list_ex (\<lambda>k. cls_has k c) cs then [t] else [])"
| "rmatch (NotIn cs) s = (case s of [] \<Rightarrow> [] | c # t \<Rightarrow> if list_ex (\<lambda>k. cls_has k c) cs then [] else [t])"
| "rmatch (Cat a b) s = concat (map (rmatch b) (rmatch a s))"
| "rmatch (Or a b) s = rmatch a s @ rmatch b s"
| "rmatch (Rep a lo hi) s = rep (rmatch a) lo hi (length s) s"

text \<open>A literal with the \<open>i\<close> flag, and without it.\<close>

definition ci :: "string \<Rightarrow> re" where
  "ci w = foldr (\<lambda>c r. Cat (In [Ch (lowerAscii c), Ch (upperAscii c)]) r) w Eps"

definition lit :: "string \<Rightarrow> re" where
  "lit w = foldr (\<lambda>c r. Cat (In [Ch c]) r) w Eps"

definition plus_re :: "re \<Rightarrow> re" where
  "plus_re r = Rep r 1 None"

definition star_re :: "re \<Rightarrow> re" where
  "star_re r = Rep r 0 None"

definition opt_re :: "re \<Rightarrow> re" where
  "opt_re r = Rep r 0 (Some 1)"

definition times_re :: "re \<Rightarrow> nat \<Rightarrow> re" where
  "times_re r n = Rep r n (Some n)"

text \<open>\<open>/^r$/.test(s)\<close>: some way of matching \<open>r\<close> at the start uses up \<open>s\<close>.\<close>

definition test_anchored :: "re \<Rightarrow> string \<Rightarrow> bool" where
  "test_anchored r s = list_ex (\<lambda>t. t = []) (rmatch r s)"

text \<open>\<open>/r/.test(s)\<close> for an unanchored pattern: \<open>r\<close> matches at some position.\<close>

fun test :: "re \<Rightarrow> string \<Rightarrow> bool" where
  "test r [] = (rmatch r [] \<noteq> [])"
| "test r (c # cs) = (rmatch r (c # cs) \<noteq> [] \<or> test r cs)"

text \<open>\<open>s.match(/pre(grp)/)\<close> for a pattern that ends with its only capture group: the text
  of the group in the first match at the leftmost position that has one, or \<open>None\<close> for
  JavaScript's \<open>null\<close>.\<close>

definition match_here :: "re \<Rightarrow> re \<Rightarrow> string \<Rightarrow> string option" where
  "match_here pre grp s =
     (case concat (map (\<lambda>r1. map (\<lambda>r2. take (length r1 - length r2) r1) (rmatch grp r1)) (rmatch pre s)) of
        [] \<Rightarrow> None
      | g # _ \<Rightarrow> Some g)"

fun match_group :: "re \<Rightarrow> re \<Rightarrow> string \<Rightarrow> string option" where
  "match_group pre grp [] = match_here pre grp []"
| "match_group pre grp (c # cs) =
     (case match_here pre grp (c # cs) of
        Some g \<Rightarrow> Some g
      | None \<Rightarrow> match_group pre grp cs)"

section \<open>utils/appointment.js\<close>

text \<open>The object built by \<open>extractAppointmentInfo\<close> and read by \<open>validateAppointmentData\<close>:
  every property is a string or absent (\<open>None\<close> for \<open>undefined\<close>).\<close>

record appointmentData =
  name :: "string option"
  email :: "string option"
  phone :: "string option"
  service :: "string option"
  preferredDate :: "string option"
  preferredTime :: "string option"

text \<open>\<open>!x\<close> for a property that is a string or absent.\<close>

definition falsy :: "string option \<Rightarrow> bool" where
  "falsy x = (case x of None \<Rightarrow> True | Some s \<Rightarrow> s = [])"

text \<open>\<open>/^[^\s@]+@[^\s@]+\.[^\s@]+$/\<close>\<close>

definition emailRegex :: re where
  "emailRegex =
     Cat (plus_re (NotIn [Space, Ch CHR ''@'']))
    (Cat (lit ''@'')
    (Cat (plus_re (NotIn [Space, Ch CHR ''@'']))
    (Cat (lit ''.'')
         (plus_re (NotIn [Space, Ch CHR ''@''])))))"

definition isValidEmail :: "string \<Rightarrow> bool" where
  "isValidEmail e = test_anchored emailRegex e"

record validation =
  valid :: bool
  errors :: "string list"

text \<open>\<open>errors.push\<close> under a condition: the message is appended when the rule is violated.\<close>

definition push_if :: "bool \<Rightarrow> string \<Rightarrow> string list \<Rightarrow> string list" where
  "push_if violated msg errs = (if violated then errs @ [msg] else errs)"

definition name_violated :: "appointmentData \<Rightarrow> bool" where
  "name_violated d = (case name d of None \<Rightarrow> True | Some s \<Rightarrow> s = [] \<or> length (trim s) < 2)"

definition email_violated :: "appointmentData \<Rightarrow> bool" where
  "email_violated d = (case email d of None \<Rightarrow> True | Some s \<Rightarrow> s = [] \<or> \<not> isValidEmail s)"

definition phone_violated :: "appointmentData \<Rightarrow> bool" where
  "phone_violated d = (case phone d of None \<Rightarrow> True | Some s \<Rightarrow> s = [] \<or> length (trim s) < 10)"

definition service_violated :: "appointmentData \<Rightarrow> bool" where
  "service_violated d = (case service d of None \<Rightarrow> True | Some s \<Rightarrow> s = [] \<or> length (trim s) = 0)"

definition date_violated :: "appointmentData \<Rightarrow> bool" where
  "date_violated d = falsy (preferredDate d)"

definition time_violated :: "appointmentData \<Rightarrow> bool" where
  "time_violated d = falsy (preferredTime d)"

definition validateAppointmentData :: "appointmentData \<Rightarrow> validation" where
  "validateAppointmentData d =
     (let errors = [];
          errors = push_if (name_violated d) ''Name must be at least 2 characters long'' errors;
          errors = push_if (email_violated d) ''Valid email is required'' errors;
          errors = push_if (phone_violated d) ''Valid phone number is required'' errors;
          errors = push_if (service_violated d) ''Service type is required'' errors;
          errors = push_if (date_violated d) ''Preferred date is required'' errors;
          errors = push_if (time_violated d) ''Preferred time is required'' errors
      in \<lparr> valid = (length errors = 0), errors = errors \<rparr>)"

text \<open>The patterns of \<open>extractAppointmentInfo\<close>, each split into what precedes the capture
  group and the group itself.\<close>

definition letters :: "cls list" where
  "letters = [Rng CHR ''a'' CHR ''z'', Rng CHR ''A'' CHR ''Z'']"

text \<open>\<open>/(?:my name is|i'm|i am|call me)\s+([a-zA-Z\s]+)/i\<close>\<close>

definition namePre :: re where
  "namePre = Cat (Or (ci ''my name is'') (Or (ci (''i'' @ [CHR 0x27] @ ''m'')) (Or (ci ''i am'') (ci ''call me''))))
                 (plus_re (In [Space]))"

definition nameGroup :: re where
  "nameGroup = plus_re (In (letters @ [Space]))"

text \<open>\<open>/([a-zA-Z0-9._%+-]+@[a-zA-Z0-9.-]+\.[a-zA-Z]{2,})/i\<close>\<close>

definition emailGroup :: re where
  "emailGroup =
     Cat (plus_re (In (letters @ [Digit, Ch CHR ''.'', Ch CHR ''_'', Ch CHR ''%'', Ch CHR ''+'', Ch CHR ''-''])))
    (Cat (lit ''@'')
    (Cat (plus_re (In (letters @ [Digit, Ch CHR ''.'', Ch CHR ''-''])))
    (Cat (lit ''.'')
         (Rep (In letters) 2 None))))"

text \<open>\<open>/(\d{3}[-.\s]?\d{3}[-.\s]?\d{4})/\<close> and the separators removed by
  \<open>.replace(/[-.\s]/g, '')\<close>\<close>

definition separators :: "cls list" where
  "separators = [Ch CHR ''-'', Ch CHR ''.'', Space]"

definition phoneGroup :: re where
  "phoneGroup =
     Cat (times_re (In [Digit]) 3)
    (Cat (opt_re (In separators))
    (Cat (times_re (In [Digit]) 3)
    (Cat (opt_re (In separators))
         (times_re (In [Digit]) 4))))"

definition stripSeparators :: "string \<Rightarrow> string" where
  "stripSeparators s = filter (\<lambda>c. \<not> list_ex (\<lambda>k. cls_has k c) separators) s"

definition serviceKeywords :: "string list" where
  "serviceKeywords = [''consultation'', ''checkup'', ''examination'', ''treatment'', ''therapy'', ''surgery'']"

text \<open>\<open>/(?:on|for|at)\s+(\w+\s+\d{1,2}(?:st|nd|rd|th)?)/i\<close>\<close>

definition datePre :: re where
  "datePre = Cat (Or (ci ''on'') (Or (ci ''for'') (ci ''at''))) (plus_re (In [Space]))"

definition dateGroup :: re where
  "dateGroup =
     Cat (plus_re (In [WordCh]))
    (Cat (plus_re (In [Space]))
    (Cat (Rep (In [Digit]) 1 (Some 2))
         (opt_re (Or (ci ''st'') (Or (ci ''nd'') (Or (ci ''rd'') (ci ''th'')))))))"

text \<open>\<open>/(\d{1,2}:\d{2}\s*(?:am|pm)?)/i\<close>\<close>

definition timeGroup :: re where
  "timeGroup =
     Cat (Rep (In [Digit]) 1 (Some 2))
    (Cat (lit '':'')
    (Cat (times_re (In [Digit]) 2)
    (Cat (star_re (In [Space]))
         (opt_re (Or (ci ''am'') (ci ''pm''))))))"

text \<open>The loop over the keywords stops at the first one the lower-cased message contains.\<close>

definition extractAppointmentInfo :: "string \<Rightarrow> appointmentData" where
  "extractAppointmentInfo message =
     \<lparr> name = map_option trim (match_group namePre nameGroup message),
       email = match_group Eps emailGroup message,
       phone = map_option stripSeparators (match_group Eps phoneGroup message),
       service = find (\<lambda>keyword. str_includes (toLowerCase message) keyword) serviceKeywords,
       preferredDate = match_group datePre dateGroup message,
       preferredTime = match_group Eps timeGroup message \<rparr>"

section \<open>JavaScript values, errors and promises\<close>

text \<open>
  A value as \<open>JSON.parse\<close> produces it, and a \<open>Date\<close>. \<open>undefined\<close> is \<open>None\<close> of
  \<open>jsval option\<close>. A number is kept as the text that \<open>Number.prototype.toString\<close> prints
  for it, which is what the handlers use of a number: \<open>0\<close> and \<open>-0\<close> are \<open>JNum ''0''\<close>. A
  \<open>Date\<close> is kept as its time value. An object the handlers build or update is a map from
  property names to values: the order of its properties, which only the text of
  \<open>JSON.stringify\<close> shows, is not recorded. In \<open>JObj ps\<close> the first pair with a name is the
  property of that name.
\<close>

datatype jsval =
    JNull
  | JBool bool
  | JNum string
  | JStr string
  | JArr "jsval list"
  | JObj "(string \<times> jsval) list"
  | JDate int

type_synonym object = "string \<rightharpoonup> jsval"

text \<open>A value in a condition (\<open>!x\<close>, \<open>if (x)\<close>).\<close>

fun truthy :: "jsval option \<Rightarrow> bool" where
  "truthy None = False"
| "truthy (Some JNull) = False"
| "truthy (Some (JBool b)) = b"
| "truthy (Some (JNum t)) = (t \<noteq> ''0'')"
| "truthy (Some (JStr s)) = (s \<noteq> [])"
| "truthy (Some (JArr xs)) = True"
| "truthy (Some (JObj ps)) = True"
| "truthy (Some (JDate t)) = True"

definition digit :: "nat \<Rightarrow> char" where
  "digit d = char_of (48 + d)"

fun string_of_nat :: "nat \<Rightarrow> string" where
  "string_of_nat n = (if n < 10 then [digit n] else string_of_nat (n div 10) @ [digit (n mod 10)])"

text \<open>The own enumerable properties that \<open>{...x}\<close> copies: those of an object, the elements
  of an array and the code units of a string under their indices, nothing for the rest.\<close>

fun own_props :: "jsval option \<Rightarrow> object" where
  "own_props (Some (JObj ps)) = map_of ps"
| "own_props (Some (JArr xs)) = map_of (zip (map string_of_nat [0..<length xs]) xs)"
| "own_props (Some (JStr s)) = map_of (zip (map string_of_nat [0..<length s]) (map (\<lambda>c. JStr [c]) s))"
| "own_props _ = Map.empty"

text \<open>What the handlers can catch. A \<open>ReferenceError\<close> carries the identifier that has no
  binding, a \<open>TypeError\<close> the property that was read from \<open>undefined\<close> or \<open>null\<close> or the
  method that a conversion found not callable, an \<open>Error\<close> the message a collaborator
  rejected with; a \<open>SyntaxError\<close> is \<open>JSON.parse\<close> failing.\<close>

datatype js_error =
    ReferenceError string
  | TypeError string
  | SyntaxError
  | Error string

text \<open>How an awaited call to a collaborator (database, completion API) ends.\<close>

datatype 'a outcome = Resolved 'a | Rejected js_error

section \<open>Conversion of a value to a string\<close>

text \<open>\<open>Array.prototype.join\<close> on the converted elements: they are converted from left to
  right and the first conversion that throws ends the call.\<close>

fun join_texts :: "(js_error + string) list \<Rightarrow> js_error + string" where
  "join_texts [] = Inr []"
| "join_texts [r] = r"
| "join_texts (r # rs) =
     (case r of
        Inl err \<Rightarrow> Inl err
      | Inr s \<Rightarrow> (case join_texts rs of Inl err \<Rightarrow> Inl err | Inr t \<Rightarrow> Inr (s @ '','' @ t)))"

text \<open>\<open>Date.prototype.toString\<close> in the time zone UTC of the runtime: the civil date of a
  number of days since 1 January 1970, a Thursday, and the text of a time value in
  milliseconds.\<close>

definition civil :: "int \<Rightarrow> int \<times> nat \<times> nat" where
  "civil days =
     (let z = days + 719468;
          era = z div 146097;
          doe = z - era * 146097;
          yoe = (doe - doe div 1460 + doe div 36524 - doe div 146096) div 365;
          doy = doe - (365 * yoe + yoe div 4 - yoe div 100);
          mp = (5 * doy + 2) div 153;
          d = doy - (153 * mp + 2) div 5 + 1;
          m = (if mp < 10 then mp + 3 else mp - 9);
          y = yoe + era * 400 + (if m \<le> 2 then 1 else 0)
      in (y, nat (m - 1), nat d))"

definition padStart :: "nat \<Rightarrow> string \<Rightarrow> string" where
  "padStart n s = replicate (n - length s) CHR ''0'' @ s"

definition date_text :: "int \<Rightarrow> string" where
  "date_text t =
     (let days = t div 86400000;
          seconds = nat (t mod 86400000) div 1000
      in case civil days of
           (y, m, d) \<Rightarrow>
             [''Sun'', ''Mon'', ''Tue'', ''Wed'', ''Thu'', ''Fri'', ''Sat''] ! nat ((days + 4) mod 7) @ '' ''
             @ [''Jan'', ''Feb'', ''Mar'', ''Apr'', ''May'', ''Jun'',
                ''Jul'', ''Aug'', ''Sep'', ''Oct'', ''Nov'', ''Dec''] ! m @ '' ''
             @ padStart 2 (string_of_nat d) @ '' ''
             @ (if y < 0 then ''-'' else []) @ padStart 4 (string_of_nat (nat \<bar>y\<bar>)) @ '' ''
             @ padStart 2 (string_of_nat (seconds div 3600)) @ '':''
             @ padStart 2 (string_of_nat (seconds div 60 mod 60)) @ '':''
             @ padStart 2 (string_of_nat (seconds mod 60))
             @ '' GMT+0000 (Coordinated Universal Time)'')"

text \<open>
  \<open>ToString\<close> of a value, which is also the property key it is used as: what a template
  literal, \<open>RegExp.prototype.test\<close> and \<open>sessions[sessionId]\<close> apply to their operand. An
  array is its elements joined by commas, \<open>null\<close> giving the empty text. An object that
  \<open>JSON.parse\<close> built is printed by \<open>Object.prototype.toString\<close> as \<open>[object Object]\<close>,
  unless it has a property \<open>toString\<close> of its own: no value of JSON is callable and
  \<open>Object.prototype.valueOf\<close> returns the object, so the conversion throws a \<open>TypeError\<close>.
\<close>

fun to_string :: "jsval \<Rightarrow> js_error + string" where
  "to_string JNull = Inr ''null''"
| "to_string (JBool b) = Inr (if b then ''true'' else ''false'')"
| "to_string (JNum t) = Inr t"
| "to_string (JStr s) = Inr s"
| "to_string (JArr xs) = join_texts (map (\<lambda>x. if x = JNull then Inr [] else to_string x) xs)"
| "to_string (JObj ps) =
     (if ''toString'' \<in> fst ` set ps then Inl (TypeError ''toString'') else Inr ''[object Object]'')"
| "to_string (JDate t) = Inr (date_text t)"

section \<open>handlers/chat.js: the slot-filling handler\<close>

definition requiredFields :: "string list" where
  "requiredFields = [''patientName'', ''dob'', ''email'', ''phone'', ''doctor'', ''service'', ''time'',
                     ''status'', ''action'', ''chiefComplaint'']"

record session_core =
  step :: nat
  data :: object

record session = session_core +
  lastActive :: int
  started :: bool

text \<open>
  \<open>sessions\<close> is a plain object used as a dictionary, so \<open>sessions[sessionId]\<close> also finds what
  \<open>Object.prototype\<close> provides. \<open>proto_lastActive\<close> is the property \<open>lastActive\<close> of
  \<open>Object.prototype\<close>, which exists once the handler has written to the session it found
  under the key \<open>__proto__\<close>. \<open>actiontables\<close> is the collection of booked appointments.
\<close>

record state =
  sessions :: "string \<rightharpoonup> session"
  proto_lastActive :: "int option"
  actiontables :: "object list"

definition objectPrototypeKeys :: "string list" where
  "objectPrototypeKeys =
     [''__proto__'', ''constructor'', ''hasOwnProperty'', ''isPrototypeOf'', ''propertyIsEnumerable'',
      ''toLocaleString'', ''toString'', ''valueOf'', ''__defineGetter__'', ''__defineSetter__'',
      ''__lookupGetter__'', ''__lookupSetter__'']"

text \<open>What \<open>sessions[k]\<close> evaluates to: a session stored under \<open>k\<close>, a truthy value inherited
  from \<open>Object.prototype\<close> (a function, the prototype itself, or a time stamp that is not 0),
  or nothing truthy.\<close>

datatype found = Own session | Inherited | Absent

definition inherited :: "state \<Rightarrow> string \<Rightarrow> bool" where
  "inherited st k =
     (k \<in> set objectPrototypeKeys
      \<or> (k = ''lastActive'' \<and> (case proto_lastActive st of None \<Rightarrow> False | Some t \<Rightarrow> t \<noteq> 0)))"

definition lookup_session :: "state \<Rightarrow> string \<Rightarrow> found" where
  "lookup_session st k =
     (case sessions st k of
        Some s \<Rightarrow> Own s
      | None \<Rightarrow> if inherited st k then Inherited else Absent)"

text \<open>The object a handler passes to \<open>JSON.stringify\<close> for the body of its response, by
  shape: \<open>''\<close>, \<open>{error}\<close>, \<open>{error, message: err.message}\<close>,
  \<open>{response, appointment, completed: true}\<close>, \<open>{response, completed: false}\<close> and
  \<open>{response, step, totalSteps}\<close> (a \<open>step\<close> that is \<open>NaN\<close>, which is printed as
  \<open>null\<close>, is \<open>None\<close>).\<close>

datatype body_shape =
    Empty
  | Refusal string
  | Failure string js_error
  | Booking string object
  | Cancellation string
  | Progress "jsval option" "nat option" nat

fun completed :: "body_shape \<Rightarrow> bool option" where
  "completed (Booking r doc) = Some True"
| "completed (Cancellation r) = Some False"
| "completed other = None"

record response =
  statusCode :: nat
  headers :: "(string \<times> string) list"
  body :: body_shape

definition defaultHeaders :: "(string \<times> string) list" where
  "defaultHeaders =
     [(''Content-Type'', ''application/json''),
      (''Access-Control-Allow-Origin'', ''*''),
      (''Access-Control-Allow-Headers'', ''Content-Type''),
      (''Access-Control-Allow-Methods'', ''POST, OPTIONS'')]"

text \<open>The \<open>catch\<close> block of the handler.\<close>

definition caught :: "js_error \<Rightarrow> response" where
  "caught err = \<lparr> statusCode = 500, headers = defaultHeaders,
                  body = Failure ''Database connection error'' err \<rparr>"

text \<open>
  How \<open>openai.chat.completions.create\<close> and the reading of its answer end: the call is
  rejected; or it returns and \<open>JSON.parse(completion.choices[0].message.content)\<close> throws;
  or that expression has a value.
\<close>

datatype completion = CallFailed js_error | Unparsable | Parsed jsval

definition clarification :: string where
  "clarification = ''Sorry, I didn'' @ [CHR 0x27] @ ''t understand that. Can you rephrase?''"

text \<open>
  \<open>handleAIConversation(session, userMessage)\<close>, with \<open>c\<close> how the completion call ends when
  it is made. The prompt is a template literal; of its three substitutions
  \<open>requiredFields.join(", ")\<close> and \<open>JSON.stringify(session.data, null, 2)\<close> are strings and
  \<open>userMessage\<close> is converted to one, which throws before the call is made when the
  message cannot be converted. The text of the prompt reaches only the completion API. The
  call is awaited before the \<open>try\<close> block; only the parsing is inside it.
\<close>

definition handleAIConversation :: "session \<Rightarrow> jsval \<Rightarrow> completion \<Rightarrow> js_error + jsval" where
  "handleAIConversation session userMessage c =
     (case to_string userMessage of
        Inl err \<Rightarrow> Inl err
      | Inr text \<Rightarrow>
          (case c of
             CallFailed err \<Rightarrow> Inl err
           | Unparsable \<Rightarrow> Inr (JObj [(''data'', JObj []), (''nextPrompt'', JStr clarification)])
           | Parsed v \<Rightarrow> Inr v))"

text \<open>\<open>const { data, nextPrompt } = v\<close>: of the values of \<open>jsval\<close> only an object can have
  these two properties, and \<open>null\<close> cannot be destructured.\<close>

fun destructure :: "jsval \<Rightarrow> js_error + (jsval option \<times> jsval option)" where
  "destructure JNull = Inl (TypeError ''data'')"
| "destructure (JObj ps) = Inr (map_of ps ''data'', map_of ps ''nextPrompt'')"
| "destructure other = Inr (None, None)"

text \<open>
  The body of a request after \<open>JSON.parse\<close>: parsing throws, or the body is \<open>null\<close> or
  \<open>undefined\<close>, or it is another value, given by what \<open>body.sessionId\<close> and \<open>body.message\<close>
  are: any value, or \<open>undefined\<close>. \<open>Fields\<close> is the body whose \<open>sessionId\<close> and \<open>message\<close> are
  strings or absent.
\<close>

datatype request = Malformed | Nullish | Body "jsval option" "jsval option"

definition Fields :: "string option \<Rightarrow> string option \<Rightarrow> request" where
  "Fields sessionId message = Body (map_option JStr sessionId) (map_option JStr message)"

text \<open>What the collaborators and the clock do during one call of the handler: \<open>init\<close> is
  \<open>initMongo\<close> and \<open>initOpenAI\<close>, \<open>now\<close> is \<open>Date.now()\<close> and \<open>createdAt\<close> is
  \<open>new Date()\<close>.\<close>

record env =
  init :: "unit outcome"
  now :: int
  completion :: completion
  insertOne :: "unit outcome"
  createdAt :: int

definition missingFields :: "object \<Rightarrow> string list" where
  "missingFields d = filter (\<lambda>f. \<not> truthy (d f)) requiredFields"

text \<open>\<open>{ ...session.data, status: 'booked', action: 'appointment', createdAt: new Date(), sessionId }\<close>\<close>

definition appointment_doc :: "object \<Rightarrow> int \<Rightarrow> jsval \<Rightarrow> object" where
  "appointment_doc d t sessionId =
     d(''status'' \<mapsto> JStr ''booked'', ''action'' \<mapsto> JStr ''appointment'',
       ''createdAt'' \<mapsto> JDate t, ''sessionId'' \<mapsto> sessionId)"

definition fresh :: "int \<Rightarrow> session" where
  "fresh t = \<lparr> step = 0, data = Map.empty, lastActive = t, started = False \<rparr>"

text \<open>
  The handler from \<open>session.lastActive = Date.now()\<close> on, for a session \<open>s0\<close> that is stored
  under \<open>key\<close>, the property key of \<open>sessionId\<close>. \<open>/yes/i.test(message)\<close> converts the
  message to a string first, and throws when that throws. \<open>PROMPTS\<close> and \<open>STEPS\<close> are bound
  nowhere in the module, so the last branch of the confirmation throws when it evaluates
  \<open>PROMPTS.confirm(session)\<close>. The \<open>_id\<close> that the database driver adds to an inserted
  document is not represented.
\<close>

definition turn :: "env \<Rightarrow> string \<Rightarrow> jsval \<Rightarrow> jsval \<Rightarrow> session \<Rightarrow> state \<Rightarrow> response \<times> state" where
  "turn e key sessionId message s0 st0 =
     (let session = s0\<lparr> lastActive := now e \<rparr>;
          st = st0\<lparr> sessions := (sessions st0)(key \<mapsto> session) \<rparr>
      in if missingFields (data session) = [] then
           (case to_string message of
              Inl err \<Rightarrow> (caught err, st)
            | Inr text \<Rightarrow>
                if test (ci ''yes'') text then
                  (let doc = appointment_doc (data session) (createdAt e) sessionId
                   in case insertOne e of
                        Rejected err \<Rightarrow> (caught err, st)
                      | Resolved u \<Rightarrow>
                          (\<lparr> statusCode = 200, headers = defaultHeaders,
                             body = Booking ''Your appointment is confirmed! Thank you.'' doc \<rparr>,
                           st\<lparr> sessions := (sessions st)(key := None),
                               actiontables := actiontables st @ [doc] \<rparr>))
                else if test (ci ''no'') text then
                  (\<lparr> statusCode = 200, headers = defaultHeaders,
                     body = Cancellation ''Appointment cancelled. If you want to start over, just say hi!'' \<rparr>,
                   st\<lparr> sessions := (sessions st)(key := None) \<rparr>)
                else (caught (ReferenceError ''PROMPTS''), st))
         else
           (case handleAIConversation session message (completion e) of
              Inl err \<Rightarrow> (caught err, st)
            | Inr parsed \<Rightarrow>
                (case destructure parsed of
                   Inl err \<Rightarrow> (caught err, st)
                 | Inr (d, nextPrompt) \<Rightarrow>
                     (let session' = session\<lparr> data := data session ++ own_props d \<rparr>;
                          stillMissing = missingFields (data session')
                      in (\<lparr> statusCode = 200, headers = defaultHeaders,
                            body = Progress nextPrompt
                                     (Some (length requiredFields - length stillMissing))
                                     (length requiredFields) \<rparr>,
                          st\<lparr> sessions := (sessions st)(key \<mapsto> session') \<rparr>)))))"

text \<open>
  The handler. \<open>!sessionId || !message\<close> tests only that the two are truthy. The first
  \<open>sessions[sessionId]\<close> converts \<open>sessionId\<close> to a property key and throws when that
  throws. A session found by inheritance is not replaced; it has no \<open>data\<close>, so the first
  \<open>session.data[f]\<close> throws, after \<open>session.lastActive\<close> has been written to
  \<open>Object.prototype\<close> when the key is \<open>__proto__\<close>.
\<close>

definition refusal :: response where
  "refusal = \<lparr> statusCode = 400, headers = defaultHeaders,
               body = Refusal ''sessionId and message are required.'' \<rparr>"

definition handler :: "env \<Rightarrow> request \<Rightarrow> state \<Rightarrow> response \<times> state" where
  "handler e req st =
     (case init e of
        Rejected err \<Rightarrow> (caught err, st)
      | Resolved u \<Rightarrow>
          (case req of
             Malformed \<Rightarrow> (caught SyntaxError, st)
           | Nullish \<Rightarrow> (caught (TypeError ''sessionId''), st)
           | Body None m \<Rightarrow> (refusal, st)
           | Body (Some sessionId) None \<Rightarrow> (refusal, st)
           | Body (Some sessionId) (Some message) \<Rightarrow>
               if \<not> truthy (Some sessionId) \<or> \<not> truthy (Some message) then (refusal, st)
               else (case to_string sessionId of
                       Inl err \<Rightarrow> (caught err, st)
                     | Inr key \<Rightarrow>
                         (case lookup_session st key of
                            Absent \<Rightarrow> turn e key sessionId message (fresh (now e)) st
                          | Own s \<Rightarrow> turn e key sessionId message s st
                          | Inherited \<Rightarrow>
                              (caught (TypeError ''patientName''),
                               if key = ''__proto__'' then st\<lparr> proto_lastActive := Some (now e) \<rparr>
                               else st)))))"

text \<open>The session a call works on when \<open>sessions[sessionId]\<close> is not inherited: the stored
  one, or the one the handler creates.\<close>

definition starting_session :: "state \<Rightarrow> string \<Rightarrow> int \<Rightarrow> session" where
  "starting_session st key t = (case sessions st key of Some s \<Rightarrow> s | None \<Rightarrow> fresh t)"

text \<open>What a call that reaches the extraction adds to the collected data: the properties of
  \<open>data\<close>, and nothing when the extraction or the destructuring throws.\<close>

definition merged :: "session \<Rightarrow> jsval \<Rightarrow> completion \<Rightarrow> object" where
  "merged session message c =
     (case handleAIConversation session message c of
        Inl err \<Rightarrow> Map.empty
      | Inr v \<Rightarrow> (case destructure v of Inl err \<Rightarrow> Map.empty | Inr (d, p) \<Rightarrow> own_props d))"

text \<open>
  The callback of \<open>setInterval\<close> and the period it is registered with. An inherited
  \<open>lastActive\<close> that the loop visits is not a property of \<open>sessions\<close>, so deleting it changes
  nothing.
\<close>

definition sweepPeriod :: int where
  "sweepPeriod = 60 * 1000"

definition sweep :: "int \<Rightarrow> state \<Rightarrow> state" where
  "sweep t st =
     st\<lparr> sessions := (\<lambda>id. case sessions st id of
                               None \<Rightarrow> None
                             | Some s \<Rightarrow> if t - lastActive s > 15 * 60 * 1000 then None else Some s) \<rparr>"

section \<open>The step-driven handler with seven fields\<close>

text \<open>The keys of \<open>appointmentFields\<close>; the prompts of the table only reach the completion
  API.\<close>

definition appointmentFields :: "string list" where
  "appointmentFields = [''name'', ''email'', ''phoneNumber'', ''doctor'', ''service'', ''date'', ''time'']"

text \<open>\<open>init7\<close> is \<open>Promise.all([initOpenAI(), initPinecone(), initMongo()])\<close>, \<open>aiResponse\<close>
  how the completion call of \<open>getAIResponse\<close> and the reading of its content end.\<close>

record env7 =
  init7 :: "unit outcome"
  aiResponse :: "string outcome"
  insertOne7 :: "unit outcome"
  createdAt7 :: int

record state7 =
  sessions7 :: "string \<rightharpoonup> session_core"
  aws :: "object list"

definition caught7 :: "js_error \<Rightarrow> response" where
  "caught7 err = \<lparr> statusCode = 500, headers = defaultHeaders,
                   body = Failure ''Internal server error'' err \<rparr>"

text \<open>\<open>getAIResponse(userMessage, session, step)\<close>, with \<open>answer\<close> how the completion call
  ends when it is made: the system prompt is a template literal that converts
  \<open>userMessage\<close> to a string, which throws before the call when the message cannot be
  converted.\<close>

definition getAIResponse :: "jsval \<Rightarrow> string outcome \<Rightarrow> string outcome" where
  "getAIResponse userMessage answer =
     (case to_string userMessage of Inl err \<Rightarrow> Rejected err | Inr text \<Rightarrow> answer)"

text \<open>The handler from \<open>const session = sessions[sessionId]\<close> on, for a session stored under
  \<open>key\<close>, the property key of \<open>sessionId\<close>. The message is stored as it is. The record is
  inserted and the session deleted before \<open>getAIResponse\<close> is called.\<close>

definition turn7 :: "env7 \<Rightarrow> string \<Rightarrow> jsval \<Rightarrow> jsval \<Rightarrow> session_core \<Rightarrow> state7 \<Rightarrow> response \<times> state7" where
  "turn7 e key sessionId message s0 st0 =
     (let session = (if 0 < step s0 \<and> step s0 \<le> length appointmentFields
                     then s0\<lparr> data := (data s0)(appointmentFields ! (step s0 - 1) \<mapsto> message) \<rparr>
                     else s0);
          st = st0\<lparr> sessions7 := (sessions7 st0)(key \<mapsto> session) \<rparr>
      in if step session \<ge> length appointmentFields then
           (let appointmentData = (data session)(''createdAt'' \<mapsto> JDate (createdAt7 e),
                                                  ''sessionId'' \<mapsto> sessionId)
            in case insertOne7 e of
                 Rejected err \<Rightarrow> (caught7 err, st)
               | Resolved u \<Rightarrow>
                   (let st' = st\<lparr> sessions7 := (sessions7 st)(key := None),
                                   aws := aws st @ [appointmentData] \<rparr>
                    in case getAIResponse message (aiResponse e) of
                         Rejected err \<Rightarrow> (caught7 err, st')
                       | Resolved r \<Rightarrow>
                           (\<lparr> statusCode = 200, headers = defaultHeaders,
                              body = Booking r appointmentData \<rparr>, st')))
         else
           (case getAIResponse message (aiResponse e) of
              Rejected err \<Rightarrow> (caught7 err, st)
            | Resolved r \<Rightarrow>
                (\<lparr> statusCode = 200, headers = defaultHeaders,
                   body = Progress (Some (JStr r)) (Some (step session + 1)) (length appointmentFields) \<rparr>,
                 st\<lparr> sessions7 := (sessions7 st)(key \<mapsto> session\<lparr> step := step session + 1 \<rparr>) \<rparr>)))"

text \<open>
  The handler. A value inherited from \<open>Object.prototype\<close> has no \<open>step\<close>: every comparison
  with it is false, \<open>step++\<close> makes it \<open>NaN\<close>, and nothing is stored in \<open>sessions\<close>.
\<close>

definition handler7 :: "env7 \<Rightarrow> request \<Rightarrow> state7 \<Rightarrow> response \<times> state7" where
  "handler7 e req st =
     (case init7 e of
        Rejected err \<Rightarrow> (caught7 err, st)
      | Resolved u \<Rightarrow>
          (case req of
             Malformed \<Rightarrow> (caught7 SyntaxError, st)
           | Nullish \<Rightarrow> (caught7 (TypeError ''sessionId''), st)
           | Body None m \<Rightarrow> (refusal, st)
           | Body (Some sessionId) None \<Rightarrow> (refusal, st)
           | Body (Some sessionId) (Some message) \<Rightarrow>
               if \<not> truthy (Some sessionId) \<or> \<not> truthy (Some message) then (refusal, st)
               else (case to_string sessionId of
                       Inl err \<Rightarrow> (caught7 err, st)
                     | Inr key \<Rightarrow>
                         (case sessions7 st key of
                            Some s \<Rightarrow> turn7 e key sessionId message s st
                          | None \<Rightarrow>
                              if key \<in> set objectPrototypeKeys then
                                (case getAIResponse message (aiResponse e) of
                                   Rejected err \<Rightarrow> (caught7 err, st)
                                 | Resolved r \<Rightarrow>
                                     (\<lparr> statusCode = 200, headers = defaultHeaders,
                                        body = Progress (Some (JStr r)) None (length appointmentFields) \<rparr>, st))
                              else turn7 e key sessionId message \<lparr> step = 0, data = Map.empty \<rparr> st))))"

text \<open>The session a call works on when \<open>sessions[sessionId]\<close> is not inherited.\<close>

definition starting_session7 :: "state7 \<Rightarrow> string \<Rightarrow> session_core" where
  "starting_session7 st key = (case sessions7 st key of Some s \<Rightarrow> s | None \<Rightarrow> \<lparr> step = 0, data = Map.empty \<rparr>)"

section \<open>handlers/chat.js: the handlers that validate their input\<close>

datatype input_check = Valid | Invalid string

fun is_string :: "jsval option \<Rightarrow> bool" where
  "is_string (Some (JStr s)) = True"
| "is_string other = False"

fun str_of :: "jsval option \<Rightarrow> string" where
  "str_of (Some (JStr s)) = s"
| "str_of other = []"

text \<open>\<open>validateInput\<close> returns \<open>{ valid: true }\<close> or \<open>{ valid: false, error }\<close>. The two length
  tests are only reached with strings.\<close>

definition validateInput :: "jsval option \<Rightarrow> jsval option \<Rightarrow> input_check" where
  "validateInput sessionId message =
     (if \<not> truthy sessionId \<or> \<not> is_string sessionId then Invalid ''sessionId must be a non-empty string''
      else if \<not> truthy message \<or> \<not> is_string message then Invalid ''message must be a non-empty string''
      else if length (str_of sessionId) > 100 then Invalid ''sessionId too long (max 100 characters)''
      else if length (str_of message) > 4000 then Invalid ''message too long (max 4000 characters)''
      else Valid)"

text \<open>What the specification demands of \<open>sessionKey\<close> (limit 100) and of \<open>userMessage\<close>
  (limit 4000): a non-empty string of at most that many characters.\<close>

definition spec_input_ok :: "nat \<Rightarrow> jsval option \<Rightarrow> bool" where
  "spec_input_ok limit x = (case x of Some (JStr s) \<Rightarrow> s \<noteq> [] \<and> length s \<le> limit | other \<Rightarrow> False)"

text \<open>\<open>event.body\<close>: falsy (absent, \<open>null\<close> or \<open>''\<close>), a text that \<open>JSON.parse\<close> rejects, or a
  text with its parsed value.\<close>

datatype raw_body = NoBody | NotJson | Json jsval

record event =
  httpMethod :: "string option"
  raw :: raw_body

text \<open>\<open>v.sessionId\<close> and \<open>v.message\<close> for a parsed body other than \<open>null\<close>.\<close>

fun read_prop :: "jsval \<Rightarrow> string \<Rightarrow> jsval option" where
  "read_prop (JObj ps) k = map_of ps k"
| "read_prop other k = None"

text \<open>
  The handler up to the end of the input validation; both handlers that call
  \<open>validateInput\<close> begin in this way, with the four headers of \<open>defaultHeaders\<close>. The
  result is the error the handler's promise is rejected with, or the response it returns
  at once, or the \<open>sessionId\<close> and \<open>message\<close> with which it goes on to the rate limit. The
  first statement of the \<open>try\<close> block evaluates \<open>JSON.parse(event.body).sessionId\<close> when
  there is a body; if that throws, the same expression throws again in the \<open>catch\<close> block
  and nothing is returned.
\<close>

definition handler_checks :: "event \<Rightarrow> js_error + (response + string \<times> string)" where
  "handler_checks ev =
     (case raw ev of
        NotJson \<Rightarrow> Inl SyntaxError
      | Json JNull \<Rightarrow> Inl (TypeError ''sessionId'')
      | parsed \<Rightarrow>
          if httpMethod ev = Some ''OPTIONS'' then
            Inr (Inl \<lparr> statusCode = 200, headers = defaultHeaders, body = Empty \<rparr>)
          else if httpMethod ev \<noteq> Some ''POST'' then
            Inr (Inl \<lparr> statusCode = 405, headers = defaultHeaders, body = Refusal ''Method not allowed'' \<rparr>)
          else
            (let body = (case parsed of Json v \<Rightarrow> v | other \<Rightarrow> JObj []);
                 sessionId = read_prop body ''sessionId'';
                 message = read_prop body ''message''
             in case validateInput sessionId message of
                  Invalid err \<Rightarrow> Inr (Inl \<lparr> statusCode = 400, headers = defaultHeaders, body = Refusal err \<rparr>)
                | Valid \<Rightarrow> Inr (Inr (str_of sessionId, str_of message))))"

section \<open>utils/inMemoryStore.js\<close>

type_synonym store = "string \<rightharpoonup> jsval list"

text \<open>\<open>module.exports.getMessages\<close>: the history of the session, created with the system
  prompt when there is none yet and a prompt is given. \<open>None\<close> is \<open>undefined\<close>.\<close>

definition getMessages :: "store \<Rightarrow> string \<Rightarrow> jsval option \<Rightarrow> jsval list option \<times> store" where
  "getMessages st sessionId systemPrompt =
     (case st sessionId of
        Some history \<Rightarrow> (Some history, st)
      | None \<Rightarrow>
          (case systemPrompt of
             None \<Rightarrow> (None, st)
           | Some prompt \<Rightarrow>
               if \<not> truthy (Some prompt) then (None, st)
               else (let history = [JObj [(''role'', JStr ''system''), (''content'', prompt)]]
                     in (Some history, st(sessionId \<mapsto> history)))))"

text \<open>
  The names an identifier in the body of \<open>appendMessage\<close> can resolve to: its parameters,
  the one declaration of the module and the parameters of the CommonJS wrapper. The two
  functions are assigned to properties of \<open>module.exports\<close>, which declares no name, and
  the global object has no property \<open>getMessages\<close>.
\<close>

definition appendMessage_scope :: "string list" where
  "appendMessage_scope =
     [''sessionId'', ''msg''] @ [''store''] @ [''exports'', ''require'', ''module'', ''__filename'', ''__dirname'']"

text \<open>\<open>getMessages(sessionId).push(msg)\<close>: the identifier is resolved first; were it bound to
  the exported function, the call would return the stored array or \<open>undefined\<close>.\<close>

definition appendMessage :: "store \<Rightarrow> string \<Rightarrow> jsval \<Rightarrow> js_error + store" where
  "appendMessage st sessionId msg =
     (if ''getMessages'' \<in> set appendMessage_scope then
        (case getMessages st sessionId (Some JNull) of
           (None, st') \<Rightarrow> Inl (TypeError ''push'')
         | (Some history, st') \<Rightarrow> Inr (st'(sessionId \<mapsto> history @ [msg])))
      else Inl (ReferenceError ''getMessages''))"

section \<open>Inputs used in the examples\<close>

definition sample :: appointmentData where
  "sample = \<lparr> name = Some ''A'', email = Some ''bad'', phone = Some ''123'',
               service = None, preferredDate = None, preferredTime = None \<rparr>"

text \<open>A session that has every required field, with \<open>status\<close> collected as \<open>pending\<close> and
  \<open>action\<close> as \<open>book\<close>.\<close>

definition collected :: object where
  "collected = map_of
     [(''patientName'', JStr ''Jane Doe''), (''dob'', JStr ''1990-04-01''),
      (''email'', JStr ''jane@example.com''), (''phone'', JStr ''5551234567''),
      (''doctor'', JStr ''Dr. Lee''), (''service'', JStr ''checkup''), (''time'', JStr ''10:30''),
      (''status'', JStr ''pending''), (''action'', JStr ''book''), (''chiefComplaint'', JStr ''cough'')]"

definition waiting :: state where
  "waiting = \<lparr> sessions = [''abc'' \<mapsto> \<lparr> step = 0, data = collected, lastActive = 1000, started = False \<rparr>],
                proto_lastActive = None, actiontables = [] \<rparr>"

definition nothing :: state where
  "nothing = \<lparr> sessions = Map.empty, proto_lastActive = None, actiontables = [] \<rparr>"

text \<open>A call during which every collaborator succeeds and the completion cannot be parsed.\<close>

definition quiet :: env where
  "quiet = \<lparr> init = Resolved (), now = 2000, completion = Unparsable,
              insertOne = Resolved (), createdAt = 2001 \<rparr>"

text \<open>The same call with an insert that fails.\<close>

definition failing :: env where
  "failing = quiet\<lparr> insertOne := Rejected (Error ''connection reset'') \<rparr>"

text \<open>A call in which the completion API rejects the request.\<close>

definition timed_out :: env where
  "timed_out = quiet\<lparr> completion := CallFailed (Error ''Request timed out.'') \<rparr>"

text \<open>The first message of the scenario, a completion that extracts its two fields, and a
  first call of the step-driven handler.\<close>

definition jane :: string where
  "jane = ''My name is Jane Doe, email jane@example.com''"

definition extracting :: env where
  "extracting = quiet\<lparr> completion := Parsed (JObj
     [(''data'', JObj [(''patientName'', JStr ''Jane Doe''), (''email'', JStr ''jane@example.com'')]),
      (''nextPrompt'', JStr ''What is your phone number?'')]) \<rparr>"

definition quiet7 :: env7 where
  "quiet7 = \<lparr> init7 = Resolved (), aiResponse = Resolved ''What is your full name?'',
               insertOne7 = Resolved (), createdAt7 = 2001 \<rparr>"

definition nothing7 :: state7 where
  "nothing7 = \<lparr> sessions7 = Map.empty, aws = [] \<rparr>"

text \<open>Two sessions, one idle since 1000 and one since 500000.\<close>

definition pair :: state where
  "pair = \<lparr> sessions = [''abc'' \<mapsto> \<lparr> step = 0, data = collected, lastActive = 1000, started = False \<rparr>,
                         ''def'' \<mapsto> \<lparr> step = 0, data = Map.empty, lastActive = 500000, started = False \<rparr>],
             proto_lastActive = None, actiontables = [] \<rparr>"

text \<open>A \<open>POST\<close> request whose \<open>sessionId\<close> has 101 characters.\<close>

definition long_id :: event where
  "long_id = \<lparr> httpMethod = Some ''POST'',
               raw = Json (JObj [(''sessionId'', JStr (replicate 101 CHR ''a'')), (''message'', JStr ''hi'')]) \<rparr>"

text \<open>What the completion of \<open>extracting\<close> extracts.\<close>

definition two_fields :: object where
  "two_fields = map_of [(''patientName'', JStr ''Jane Doe''), (''email'', JStr ''jane@example.com'')]"

text \<open>The quiet call at another time, and the state after a call for the key \<open>lastActive\<close>
  at 1000 and a call for the key \<open>__proto__\<close> at 1500.\<close>

definition quiet_at :: "int \<Rightarrow> env" where
  "quiet_at t = quiet\<lparr> now := t \<rparr>"

definition polluted :: state where
  "polluted = \<lparr> sessions = [''lastActive'' \<mapsto> \<lparr> step = 0, data = Map.empty, lastActive = 1000, started = False \<rparr>],
                 proto_lastActive = Some 1500, actiontables = [] \<rparr>"

text \<open>A message that cannot be converted to a string.\<close>

definition unprintable :: jsval where
  "unprintable = JObj [(''toString'', JNum ''1'')]"

text \<open>A completion that extracts another name from the message of the scenario.\<close>

definition renaming :: env where
  "renaming = quiet\<lparr> completion := Parsed (JObj
     [(''data'', JObj [(''patientName'', JStr ''Jane'')]),
      (''nextPrompt'', JStr ''What is your phone number?'')]) \<rparr>"

text \<open>A session that lacks only the complaint, a message that states it and a completion
  that extracts it.\<close>

definition nine_fields :: object where
  "nine_fields = collected(''chiefComplaint'' := None)"

definition almost :: state where
  "almost = \<lparr> sessions = [''abc'' \<mapsto> \<lparr> step = 0, data = nine_fields, lastActive = 1000, started = False \<rparr>],
               proto_lastActive = None, actiontables = [] \<rparr>"

definition complaint :: string where
  "complaint = ''It is nothing serious, a cough''"

definition coughing :: env where
  "coughing = quiet\<lparr> completion := Parsed (JObj
     [(''data'', JObj [(''chiefComplaint'', JStr ''cough'')]),
      (''nextPrompt'', JStr ''Shall I book the appointment?'')]) \<rparr>"

text \<open>The step-driven handler after the first call for the key \<open>abc\<close>.\<close>

definition asked_name7 :: state7 where
  "asked_name7 = \<lparr> sessions7 = [''abc'' \<mapsto> \<lparr> step = 1, data = Map.empty \<rparr>], aws = [] \<rparr>"

section \<open>Validation reports every violated rule\<close>

lemma sample_violations:
  "name_violated sample" "email_violated sample" "phone_violated sample"
  "service_violated sample" "date_violated sample" "time_violated sample"
  by (simp_all add: sample_def name_violated_def email_violated_def phone_violated_def
      service_violated_def date_violated_def time_violated_def falsy_def trim_def isSpace_def
      code_def isValidEmail_def test_anchored_def emailRegex_def plus_re_def lit_def)

text \<open>
  Claim C5. \<open>validateAppointmentData\<close> returns the message of every rule that is violated, in
  the order of the rules, and \<open>valid\<close> exactly when there is none; for
  \<open>{name: "A", email: "bad", phone: "123"}\<close> it returns \<open>valid = false\<close> and at least three
  messages.
\<close>

theorem validate_reports_every_violation:
  "errors (validateAppointmentData d) =
       (if name_violated d then [''Name must be at least 2 characters long''] else [])
     @ (if email_violated d then [''Valid email is required''] else [])
     @ (if phone_violated d then [''Valid phone number is required''] else [])
     @ (if service_violated d then [''Service type is required''] else [])
     @ (if date_violated d then [''Preferred date is required''] else [])
     @ (if time_violated d then [''Preferred time is required''] else [])
   \<and> valid (validateAppointmentData d) = (errors (validateAppointmentData d) = [])
   \<and> \<not> valid (validateAppointmentData sample)
   \<and> 3 \<le> length (errors (validateAppointmentData sample))"
  by (simp add: validateAppointmentData_def push_if_def Let_def sample_violations)

theorem validate_reports_every_violation_witness:
  "errors (validateAppointmentData sample) =
     [''Name must be at least 2 characters long'', ''Valid email is required'',
      ''Valid phone number is required'', ''Service type is required'',
      ''Preferred date is required'', ''Preferred time is required'']
   \<and> valid (validateAppointmentData sample) = False"
  using validate_reports_every_violation [of sample]
  by (simp add: sample_violations)


section \<open>The slot-filling handler: how a call proceeds\<close>

declare test.simps [simp del]

lemma yes_nonempty: "test (ci ''yes'') msg \<Longrightarrow> msg \<noteq> []"
  by (cases msg) (simp_all add: ci_def test.simps)

lemma handler_body:
  "init e = Resolved () \<Longrightarrow> truthy (Some sv) \<Longrightarrow> truthy (Some mv) \<Longrightarrow> to_string sv = Inr key
   \<Longrightarrow> lookup_session st key \<noteq> Inherited
   \<Longrightarrow> handler e (Body (Some sv) (Some mv)) st = turn e key sv mv (starting_session st key (now e)) st"
  by (cases "sessions st key") (auto simp add: handler_def lookup_session_def starting_session_def)

lemma handler_own:
  "init e = Resolved () \<Longrightarrow> sid \<noteq> [] \<Longrightarrow> msg \<noteq> [] \<Longrightarrow> sessions st sid = Some s
   \<Longrightarrow> handler e (Fields (Some sid) (Some msg)) st = turn e sid (JStr sid) (JStr msg) s st"
  by (simp add: handler_def Fields_def lookup_session_def)

lemma handler_absent:
  "init e = Resolved () \<Longrightarrow> sid \<noteq> [] \<Longrightarrow> msg \<noteq> [] \<Longrightarrow> sessions st sid = None
   \<Longrightarrow> \<not> inherited st sid
   \<Longrightarrow> handler e (Fields (Some sid) (Some msg)) st = turn e sid (JStr sid) (JStr msg) (fresh (now e)) st"
  by (simp add: handler_def Fields_def lookup_session_def)

lemma handler_turn:
  "init e = Resolved () \<Longrightarrow> sid \<noteq> [] \<Longrightarrow> msg \<noteq> [] \<Longrightarrow> lookup_session st sid \<noteq> Inherited
   \<Longrightarrow> handler e (Fields (Some sid) (Some msg)) st
       = turn e sid (JStr sid) (JStr msg) (starting_session st sid (now e)) st"
  by (simp add: Fields_def handler_body)

lemma turn_booked:
  "missingFields (data s) = [] \<Longrightarrow> test (ci ''yes'') msg \<Longrightarrow> insertOne e = Resolved ()
   \<Longrightarrow> turn e key sv (JStr msg) s st =
       (\<lparr> statusCode = 200, headers = defaultHeaders,
          body = Booking ''Your appointment is confirmed! Thank you.'' (appointment_doc (data s) (createdAt e) sv) \<rparr>,
        st\<lparr> sessions := (sessions st)(key := None),
            actiontables := actiontables st @ [appointment_doc (data s) (createdAt e) sv] \<rparr>)"
  by (simp add: turn_def Let_def)

lemma turn_insert_failed:
  "missingFields (data s) = [] \<Longrightarrow> test (ci ''yes'') msg \<Longrightarrow> insertOne e = Rejected err
   \<Longrightarrow> turn e key sv (JStr msg) s st =
       (caught err, st\<lparr> sessions := (sessions st)(key \<mapsto> s\<lparr> lastActive := now e \<rparr>) \<rparr>)"
  by (simp add: turn_def Let_def)

lemma turn_cancelled:
  "missingFields (data s) = [] \<Longrightarrow> \<not> test (ci ''yes'') msg \<Longrightarrow> test (ci ''no'') msg
   \<Longrightarrow> turn e key sv (JStr msg) s st =
       (\<lparr> statusCode = 200, headers = defaultHeaders,
          body = Cancellation ''Appointment cancelled. If you want to start over, just say hi!'' \<rparr>,
        st\<lparr> sessions := (sessions st)(key := None) \<rparr>)"
  by (simp add: turn_def Let_def)

lemma turn_extract:
  "missingFields (data s) \<noteq> [] \<Longrightarrow> handleAIConversation (s\<lparr> lastActive := now e \<rparr>) mv (completion e) = Inr v
   \<Longrightarrow> destructure v = Inr (d, p)
   \<Longrightarrow> turn e key sv mv s st =
       (\<lparr> statusCode = 200, headers = defaultHeaders,
          body = Progress p (Some (length requiredFields - length (missingFields (data s ++ own_props d))))
                   (length requiredFields) \<rparr>,
        st\<lparr> sessions := (sessions st)(key \<mapsto> s\<lparr> lastActive := now e, data := data s ++ own_props d \<rparr>) \<rparr>)"
  by (simp add: turn_def Let_def)

lemma turn_extract_failed:
  "missingFields (data s) \<noteq> [] \<Longrightarrow> handleAIConversation (s\<lparr> lastActive := now e \<rparr>) mv (completion e) = Inl err
   \<Longrightarrow> turn e key sv mv s st = (caught err, st\<lparr> sessions := (sessions st)(key \<mapsto> s\<lparr> lastActive := now e \<rparr>) \<rparr>)"
  by (simp add: turn_def Let_def)

lemma turn_destructure_failed:
  "missingFields (data s) \<noteq> [] \<Longrightarrow> handleAIConversation (s\<lparr> lastActive := now e \<rparr>) mv (completion e) = Inr v
   \<Longrightarrow> destructure v = Inl err
   \<Longrightarrow> turn e key sv mv s st = (caught err, st\<lparr> sessions := (sessions st)(key \<mapsto> s\<lparr> lastActive := now e \<rparr>) \<rparr>)"
  by (simp add: turn_def Let_def)

lemma turn_reprompt:
  "missingFields (data s) = [] \<Longrightarrow> \<not> test (ci ''yes'') msg \<Longrightarrow> \<not> test (ci ''no'') msg
   \<Longrightarrow> turn e key sv (JStr msg) s st =
       (caught (ReferenceError ''PROMPTS''), st\<lparr> sessions := (sessions st)(key \<mapsto> s\<lparr> lastActive := now e \<rparr>) \<rparr>)"
  by (simp add: turn_def Let_def)

lemma doc_keeps:
  "k \<noteq> ''status'' \<Longrightarrow> k \<noteq> ''action'' \<Longrightarrow> k \<noteq> ''createdAt'' \<Longrightarrow> k \<noteq> ''sessionId''
   \<Longrightarrow> appointment_doc d t sv k = d k"
  by (simp add: appointment_doc_def)

lemma doc_sets:
  "appointment_doc d t sv ''status'' = Some (JStr ''booked'')"
  "appointment_doc d t sv ''action'' = Some (JStr ''appointment'')"
  "appointment_doc d t sv ''createdAt'' = Some (JDate t)"
  "appointment_doc d t sv ''sessionId'' = Some sv"
  by (simp_all add: appointment_doc_def)

lemma handleAIConversation_text:
  "to_string m = Inr t \<Longrightarrow>
     handleAIConversation x m c =
       (case c of
          CallFailed err \<Rightarrow> Inl err
        | Unparsable \<Rightarrow> Inr (JObj [(''data'', JObj []), (''nextPrompt'', JStr clarification)])
        | Parsed v \<Rightarrow> Inr v)"
  by (simp add: handleAIConversation_def)

lemma handleAIConversation_throws:
  "(handleAIConversation x m c = Inl err)
     = (to_string m = Inl err \<or> (\<exists>t. to_string m = Inr t) \<and> c = CallFailed err)"
  by (cases "to_string m"; cases c) (simp_all add: handleAIConversation_def)

lemma destructure_throws: "(destructure v = Inl err) = (v = JNull \<and> err = TypeError ''data'')"
  by (cases v) auto

lemma destructure_fallback:
  "destructure (JObj [(''data'', JObj []), (''nextPrompt'', JStr clarification)])
     = Inr (Some (JObj []), Some (JStr clarification))"
  by simp

lemma caught_status: "statusCode (caught err) = 500" "body (caught err) = Failure ''Database connection error'' err"
  by (simp_all add: caught_def)

subsection \<open>The examples evaluated\<close>

lemma yes_matches: "test (ci ''yes'') ''yes''"
  by code_simp

lemma maybe_matches_neither: "\<not> test (ci ''yes'') ''maybe''" "\<not> test (ci ''no'') ''maybe''"
  by code_simp+

lemma collected_complete: "missingFields collected = []"
  by (simp add: missingFields_def requiredFields_def collected_def)

lemma not_inherited_abc: "\<not> inherited waiting ''abc''"
  by (simp add: inherited_def objectPrototypeKeys_def waiting_def)

lemma waiting_abc: "sessions waiting ''abc'' = Some \<lparr> step = 0, data = collected, lastActive = 1000, started = False \<rparr>"
  by (simp add: waiting_def)

lemma not_inherited_nothing: "\<not> inherited nothing ''abc''"
  by (simp add: inherited_def objectPrototypeKeys_def nothing_def)

lemma fresh_missing: "missingFields (data (fresh t)) = requiredFields"
  by (simp add: missingFields_def fresh_def)

lemma starting_nothing: "starting_session nothing ''abc'' t = fresh t"
  by (simp add: starting_session_def nothing_def)

lemma lookup_nothing: "lookup_session nothing ''abc'' \<noteq> Inherited"
  using not_inherited_nothing by (simp add: lookup_session_def) (simp add: nothing_def)

section \<open>Booking on confirmation\<close>

text \<open>
  The record that is inserted takes \<open>status\<close>, \<open>action\<close>, \<open>createdAt\<close> and \<open>sessionId\<close> from the
  handler. \<open>status\<close> and \<open>action\<close> are required fields, so a session that has collected every
  field has collected values for them, and these do not reach the record: a session with
  \<open>status\<close> collected as \<open>pending\<close> and \<open>action\<close> as \<open>book\<close> is booked with
  \<open>status = booked\<close> and \<open>action = appointment\<close>.
\<close>

theorem booking_overwrites_collected_status:
  "missingFields collected = [] \<and> test (ci ''yes'') ''yes''
   \<and> sessions waiting ''abc'' = Some \<lparr> step = 0, data = collected, lastActive = 1000, started = False \<rparr>
   \<and> collected ''status'' = Some (JStr ''pending'')
   \<and> collected ''action'' = Some (JStr ''book'')
   \<and> body (fst (handler quiet (Fields (Some ''abc'') (Some ''yes'')) waiting))
       = Booking ''Your appointment is confirmed! Thank you.'' (appointment_doc collected 2001 (JStr ''abc''))
   \<and> actiontables (snd (handler quiet (Fields (Some ''abc'') (Some ''yes'')) waiting))
       = [appointment_doc collected 2001 (JStr ''abc'')]
   \<and> appointment_doc collected 2001 (JStr ''abc'') ''status'' = Some (JStr ''booked'')
   \<and> appointment_doc collected 2001 (JStr ''abc'') ''action'' = Some (JStr ''appointment'')
   \<and> appointment_doc collected 2001 (JStr ''abc'') ''action'' \<noteq> collected ''action''"
proof -
  have c: "collected ''status'' = Some (JStr ''pending'')" "collected ''action'' = Some (JStr ''book'')"
    by (simp_all add: collected_def)
  have "handler quiet (Fields (Some ''abc'') (Some ''yes'')) waiting
          = turn quiet ''abc'' (JStr ''abc'') (JStr ''yes'')
              \<lparr> step = 0, data = collected, lastActive = 1000, started = False \<rparr> waiting"
    by (rule handler_own) (simp_all add: quiet_def waiting_abc)
  also have "\<dots> = (\<lparr> statusCode = 200, headers = defaultHeaders,
          body = Booking ''Your appointment is confirmed! Thank you.'' (appointment_doc collected 2001 (JStr ''abc'')) \<rparr>,
        waiting\<lparr> sessions := (sessions waiting)(''abc'' := None),
            actiontables := actiontables waiting @ [appointment_doc collected 2001 (JStr ''abc'')] \<rparr>)"
    using turn_booked [of "\<lparr> step = 0, data = collected, lastActive = 1000, started = False \<rparr>" "''yes''" quiet
        "''abc''" "JStr ''abc''" waiting]
    by (simp add: collected_complete yes_matches quiet_def)
  finally show ?thesis
    by (simp add: collected_complete yes_matches waiting_abc c doc_sets) (simp add: waiting_def)
qed

text \<open>
  Claim C1, amended. For a session with every required field and a message that matches
  \<open>/yes/i\<close>, when the insert succeeds: the handler answers 200 with \<open>completed = true\<close> and the
  record it inserted; the record has \<open>status = booked\<close> and \<open>action = appointment\<close> and, under
  every key other than \<open>status\<close>, \<open>action\<close>, \<open>createdAt\<close> and \<open>sessionId\<close>, what was collected;
  the session is deleted, and the next call with that key, when the key names nothing that
  \<open>Object.prototype\<close> provides, is a call for a new session whose collected mapping is empty.
\<close>

theorem booking_record:
  assumes "init e = Resolved ()" and "insertOne e = Resolved ()"
    and "sessions st sid = Some s" and "missingFields (data s) = []"
    and "sid \<noteq> []" and "test (ci ''yes'') msg"
    and "handler e (Fields (Some sid) (Some msg)) st = (r, st')"
    and "\<not> inherited st sid" and "init e' = Resolved ()" and "msg' \<noteq> []"
  defines "doc \<equiv> appointment_doc (data s) (createdAt e) (JStr sid)"
  shows "statusCode r = 200
       \<and> body r = Booking ''Your appointment is confirmed! Thank you.'' doc
       \<and> completed (body r) = Some True
       \<and> actiontables st' = actiontables st @ [doc]
       \<and> doc ''status'' = Some (JStr ''booked'')
       \<and> doc ''action'' = Some (JStr ''appointment'')
       \<and> (\<forall>k. k \<notin> {''status'', ''action'', ''createdAt'', ''sessionId''} \<longrightarrow> doc k = data s k)
       \<and> sessions st' sid = None
       \<and> handler e' (Fields (Some sid) (Some msg')) st'
           = turn e' sid (JStr sid) (JStr msg') (fresh (now e')) st'
       \<and> data (fresh (now e')) = Map.empty"
proof -
  have m: "msg \<noteq> []" using assms(6) by (rule yes_nonempty)
  have 1: "(r, st') = (\<lparr> statusCode = 200, headers = defaultHeaders,
          body = Booking ''Your appointment is confirmed! Thank you.'' doc \<rparr>,
        st\<lparr> sessions := (sessions st)(sid := None), actiontables := actiontables st @ [doc] \<rparr>)"
    using assms(1-7) m by (simp add: handler_own turn_booked doc_def)
  have 2: "sessions st' sid = None" "\<not> inherited st' sid"
    using 1 assms(8) by (simp_all add: inherited_def)
  have 3: "handler e' (Fields (Some sid) (Some msg')) st'
             = turn e' sid (JStr sid) (JStr msg') (fresh (now e')) st'"
    using 2 assms(5,9,10) by (simp add: handler_absent)
  show ?thesis using 1 2 3 by (simp add: doc_def doc_sets doc_keeps fresh_def)
qed

theorem booking_record_witness:
  "missingFields collected = [] \<and> test (ci ''yes'') ''yes''
   \<and> statusCode (fst (handler quiet (Fields (Some ''abc'') (Some ''yes'')) waiting)) = 200
   \<and> completed (body (fst (handler quiet (Fields (Some ''abc'') (Some ''yes'')) waiting))) = Some True
   \<and> appointment_doc collected 2001 (JStr ''abc'') ''patientName'' = Some (JStr ''Jane Doe'')
   \<and> sessions (snd (handler quiet (Fields (Some ''abc'') (Some ''yes'')) waiting)) ''abc'' = None"
proof -
  have h: "init quiet = Resolved ()" "insertOne quiet = Resolved ()"
    "sessions waiting ''abc'' = Some \<lparr> step = 0, data = collected, lastActive = 1000, started = False \<rparr>"
    "missingFields (data \<lparr> step = 0, data = collected, lastActive = 1000, started = False \<rparr>) = []"
    "''abc'' \<noteq> []" "test (ci ''yes'') ''yes''"
    by (simp_all add: quiet_def waiting_abc collected_complete yes_matches)
  have g: "\<not> inherited waiting ''abc''" "init quiet = Resolved ()" "''hello'' \<noteq> []"
    by (simp_all add: not_inherited_abc quiet_def)
  have c: "collected ''patientName'' = Some (JStr ''Jane Doe'')" by (simp add: collected_def)
  note t = booking_record [OF h surjective_pairing g]
  show ?thesis using t by (simp add: collected_complete yes_matches quiet_def c)
qed

section \<open>A failed insert keeps the session\<close>

text \<open>
  Claim C2. For a session with every required field and a message that matches \<open>/yes/i\<close>, when
  the insert is rejected the handler answers 500 with the error, the session stays
  stored with the data it had (only \<open>lastActive\<close> is new) and nothing is inserted; the same
  message sent again books the appointment once the insert succeeds.
\<close>

theorem failed_insert_keeps_session:
  assumes "init e = Resolved ()" and "insertOne e = Rejected err"
    and "sessions st sid = Some s" and "missingFields (data s) = []"
    and "sid \<noteq> []" and "test (ci ''yes'') msg"
    and "init e' = Resolved ()" and "insertOne e' = Resolved ()"
    and "handler e (Fields (Some sid) (Some msg)) st = (r, st')"
    and "handler e' (Fields (Some sid) (Some msg)) st' = (r', st'')"
  shows "statusCode r = 500 \<and> body r = Failure ''Database connection error'' err
       \<and> sessions st' = (sessions st)(sid \<mapsto> s\<lparr> lastActive := now e \<rparr>)
       \<and> actiontables st' = actiontables st
       \<and> statusCode r' = 200
       \<and> body r' = Booking ''Your appointment is confirmed! Thank you.''
                     (appointment_doc (data s) (createdAt e') (JStr sid))
       \<and> sessions st'' sid = None
       \<and> actiontables st'' = actiontables st @ [appointment_doc (data s) (createdAt e') (JStr sid)]"
proof -
  have m: "msg \<noteq> []" using assms(6) by (rule yes_nonempty)
  have 1: "(r, st') = (caught err, st\<lparr> sessions := (sessions st)(sid \<mapsto> s\<lparr> lastActive := now e \<rparr>) \<rparr>)"
    using assms m by (simp add: handler_own turn_insert_failed)
  then have s': "sessions st' sid = Some (s\<lparr> lastActive := now e \<rparr>)" by simp
  have 2: "(r', st'') = turn e' sid (JStr sid) (JStr msg) (s\<lparr> lastActive := now e \<rparr>) st'"
    using assms m s' by (simp add: handler_own)
  show ?thesis using 1 2 assms by (simp add: turn_booked caught_def)
qed

theorem failed_insert_keeps_session_witness:
  "missingFields collected = [] \<and> test (ci ''yes'') ''yes''
   \<and> statusCode (fst (handler failing (Fields (Some ''abc'') (Some ''yes'')) waiting)) = 500
   \<and> sessions (snd (handler failing (Fields (Some ''abc'') (Some ''yes'')) waiting)) ''abc''
       = Some \<lparr> step = 0, data = collected, lastActive = 2000, started = False \<rparr>
   \<and> statusCode (fst (handler quiet (Fields (Some ''abc'') (Some ''yes''))
                        (snd (handler failing (Fields (Some ''abc'') (Some ''yes'')) waiting)))) = 200
   \<and> sessions (snd (handler quiet (Fields (Some ''abc'') (Some ''yes''))
                        (snd (handler failing (Fields (Some ''abc'') (Some ''yes'')) waiting)))) ''abc'' = None"
proof -
  have h: "init failing = Resolved ()" "insertOne failing = Rejected (Error ''connection reset'')"
    "sessions waiting ''abc'' = Some \<lparr> step = 0, data = collected, lastActive = 1000, started = False \<rparr>"
    "missingFields (data \<lparr> step = 0, data = collected, lastActive = 1000, started = False \<rparr>) = []"
    "''abc'' \<noteq> []" "test (ci ''yes'') ''yes''"
    "init quiet = Resolved ()" "insertOne quiet = Resolved ()"
    by (simp_all add: failing_def quiet_def waiting_abc collected_complete yes_matches)
  have n: "now failing = 2000" by (simp add: failing_def quiet_def)
  note t = failed_insert_keeps_session [OF h surjective_pairing surjective_pairing]
  show ?thesis using t by (simp add: n collected_complete yes_matches)
qed

section \<open>The repeated confirmation question\<close>

text \<open>
  Claim C3 asks for a normal reply that repeats the confirmation question when the message
  matches neither \<open>/yes/i\<close> nor \<open>/no/i\<close>. The branch evaluates \<open>PROMPTS.confirm(session)\<close> and
  \<open>PROMPTS\<close> has no binding: for the session of the example and the message \<open>maybe\<close> the
  handler answers 500. The collected data stays as it was.
\<close>

theorem reprompt_throws:
  "missingFields collected = [] \<and> \<not> test (ci ''yes'') ''maybe'' \<and> \<not> test (ci ''no'') ''maybe''
   \<and> handler quiet (Fields (Some ''abc'') (Some ''maybe'')) waiting
       = (\<lparr> statusCode = 500, headers = defaultHeaders,
            body = Failure ''Database connection error'' (ReferenceError ''PROMPTS'') \<rparr>,
          waiting\<lparr> sessions := [''abc'' \<mapsto> \<lparr> step = 0, data = collected, lastActive = 2000, started = False \<rparr>] \<rparr>)"
proof -
  have "handler quiet (Fields (Some ''abc'') (Some ''maybe'')) waiting
          = turn quiet ''abc'' (JStr ''abc'') (JStr ''maybe'')
              \<lparr> step = 0, data = collected, lastActive = 1000, started = False \<rparr> waiting"
    by (rule handler_own) (simp_all add: quiet_def waiting_abc)
  also have "\<dots> = (caught (ReferenceError ''PROMPTS''),
        waiting\<lparr> sessions := (sessions waiting)(''abc'' \<mapsto> \<lparr> step = 0, data = collected, lastActive = 1000, started = False \<rparr>\<lparr> lastActive := now quiet \<rparr>) \<rparr>)"
    by (rule turn_reprompt) (simp_all add: collected_complete maybe_matches_neither)
  finally show ?thesis
    by (simp add: collected_complete maybe_matches_neither caught_def quiet_def) (simp add: waiting_def)
qed

theorem reprompt_throws_witness:
  "statusCode (fst (handler quiet (Fields (Some ''abc'') (Some ''maybe'')) waiting)) = 500
   \<and> map_option data (sessions (snd (handler quiet (Fields (Some ''abc'') (Some ''maybe'')) waiting)) ''abc'')
       = Some collected"
  using reprompt_throws by simp

section \<open>Failures of the extraction\<close>

text \<open>
  The completion call is awaited outside the \<open>try\<close> block of \<open>handleAIConversation\<close>: when the
  API rejects the request, the extractor throws and the handler answers 500.
\<close>

theorem rejected_completion_escapes:
  "handleAIConversation (fresh 2000) (JStr ''hi'') (completion timed_out) = Inl (Error ''Request timed out.'')
   \<and> handler timed_out (Fields (Some ''abc'') (Some ''hi'')) nothing
       = (\<lparr> statusCode = 500, headers = defaultHeaders,
            body = Failure ''Database connection error'' (Error ''Request timed out.'') \<rparr>,
          nothing\<lparr> sessions := [''abc'' \<mapsto> fresh 2000] \<rparr>)"
proof -
  have a: "handleAIConversation x (JStr ''hi'') (completion timed_out) = Inl (Error ''Request timed out.'')" for x
    by (simp add: timed_out_def handleAIConversation_def)
  have "handler timed_out (Fields (Some ''abc'') (Some ''hi'')) nothing
          = turn timed_out ''abc'' (JStr ''abc'') (JStr ''hi'') (starting_session nothing ''abc'' (now timed_out)) nothing"
    by (rule handler_turn) (simp_all add: timed_out_def quiet_def lookup_nothing)
  also have "\<dots> = (caught (Error ''Request timed out.''),
       nothing\<lparr> sessions := (sessions nothing)(''abc'' \<mapsto> (fresh (now timed_out))\<lparr> lastActive := now timed_out \<rparr>) \<rparr>)"
    unfolding starting_nothing
    by (rule turn_extract_failed) (simp_all add: fresh_missing requiredFields_def a)
  finally show ?thesis
    by (simp add: a caught_def) (simp add: nothing_def timed_out_def quiet_def fresh_def)
qed

text \<open>
  Claim C4, amended. When the message can be converted to a string, the completion call
  returns and its content cannot be parsed, \<open>handleAIConversation\<close> returns
  \<open>{data: {}, nextPrompt: clarification}\<close>, and a call that reaches the extraction answers
  200 with that prompt, the collected data unchanged. \<open>handleAIConversation\<close> throws exactly
  when the message cannot be converted to a string, which the template of the prompt
  does, or the completion call is rejected; a call that reaches the extraction then
  answers 500 with that error and leaves the collected data unchanged. A call reaches the
  extraction when the initialisation succeeds, \<open>sessionId\<close> and \<open>message\<close> are truthy, a
  session is found or created under the property key of \<open>sessionId\<close>, and a required field
  is missing in it; such a call answers 500 only in these two cases or when the parsed
  content is \<open>null\<close>.
\<close>

theorem extraction_failures:
  assumes "init e = Resolved ()" and "truthy (Some sv)" and "truthy (Some mv)"
    and "to_string sv = Inr key" and "lookup_session st key \<noteq> Inherited"
    and "missingFields (data (starting_session st key (now e))) \<noteq> []"
    and "handler e (Body (Some sv) (Some mv)) st = (r, st')"
  defines "s \<equiv> (starting_session st key (now e))\<lparr> lastActive := now e \<rparr>"
  shows "(to_string m = Inr t \<longrightarrow>
            handleAIConversation x m Unparsable
              = Inr (JObj [(''data'', JObj []), (''nextPrompt'', JStr clarification)]))
       \<and> ((handleAIConversation x m c = Inl err)
            = (to_string m = Inl err \<or> (\<exists>t. to_string m = Inr t) \<and> c = CallFailed err))
       \<and> ((\<exists>t. to_string mv = Inr t) \<and> completion e = Unparsable \<longrightarrow>
            statusCode r = 200
            \<and> body r = Progress (Some (JStr clarification))
                         (Some (length requiredFields - length (missingFields (data s)))) (length requiredFields)
            \<and> sessions st' key = Some s)
       \<and> (handleAIConversation s mv (completion e) = Inl err \<longrightarrow>
            statusCode r = 500 \<and> body r = Failure ''Database connection error'' err
            \<and> sessions st' key = Some s)
       \<and> ((statusCode r = 500)
            = ((\<exists>x. to_string mv = Inl x) \<or> (\<exists>x. completion e = CallFailed x) \<or> completion e = Parsed JNull))"
proof -
  define s0 where "s0 = starting_session st key (now e)"
  have s: "s = s0\<lparr> lastActive := now e \<rparr>" by (simp add: s_def s0_def)
  have t: "(r, st') = turn e key sv mv s0 st"
    using assms(1-5,7) by (simp add: handler_body s0_def)
  have m: "missingFields (data s0) \<noteq> []" using assms(6) by (simp add: s0_def)
  have f: "handleAIConversation s mv (completion e) = Inl y \<Longrightarrow>
       (r, st') = (caught y, st\<lparr> sessions := (sessions st)(key \<mapsto> s) \<rparr>)" for y
    unfolding t s by (rule turn_extract_failed [OF m])
  have n: "handleAIConversation s mv (completion e) = Inr JNull \<Longrightarrow>
       (r, st') = (caught (TypeError ''data''), st\<lparr> sessions := (sessions st)(key \<mapsto> s) \<rparr>)"
    unfolding t s by (rule turn_destructure_failed [OF m, of _ _ JNull]) simp_all
  have p: "handleAIConversation s mv (completion e) = Inr v \<Longrightarrow> destructure v = Inr (d, q) \<Longrightarrow>
       (r, st') = (\<lparr> statusCode = 200, headers = defaultHeaders,
          body = Progress q (Some (length requiredFields - length (missingFields (data s0 ++ own_props d))))
                   (length requiredFields) \<rparr>,
        st\<lparr> sessions := (sessions st)(key \<mapsto> s0\<lparr> lastActive := now e, data := data s0 ++ own_props d \<rparr>) \<rparr>)" for v d q
    unfolding t s by (rule turn_extract [OF m])
  have c1: "to_string m = Inr t \<longrightarrow>
            handleAIConversation x m Unparsable
              = Inr (JObj [(''data'', JObj []), (''nextPrompt'', JStr clarification)])"
    by (simp add: handleAIConversation_def)
  have c2: "(handleAIConversation x m c = Inl err)
            = (to_string m = Inl err \<or> (\<exists>t. to_string m = Inr t) \<and> c = CallFailed err)"
    by (rule handleAIConversation_throws)
  have c3: "(\<exists>t. to_string mv = Inr t) \<and> completion e = Unparsable \<longrightarrow>
            statusCode r = 200
            \<and> body r = Progress (Some (JStr clarification))
                         (Some (length requiredFields - length (missingFields (data s)))) (length requiredFields)
            \<and> sessions st' key = Some s"
  proof
    assume a: "(\<exists>t. to_string mv = Inr t) \<and> completion e = Unparsable"
    then have "handleAIConversation s mv (completion e)
                 = Inr (JObj [(''data'', JObj []), (''nextPrompt'', JStr clarification)])"
      by (auto simp add: handleAIConversation_def)
    from p [OF this destructure_fallback]
    show "statusCode r = 200
            \<and> body r = Progress (Some (JStr clarification))
                         (Some (length requiredFields - length (missingFields (data s)))) (length requiredFields)
            \<and> sessions st' key = Some s"
      by (simp add: s)
  qed
  have c4: "handleAIConversation s mv (completion e) = Inl err \<longrightarrow>
            statusCode r = 500 \<and> body r = Failure ''Database connection error'' err
            \<and> sessions st' key = Some s"
    using f [of err] by (simp add: caught_status)
  have five: "(statusCode r = 500)
            = ((\<exists>x. to_string mv = Inl x) \<or> (\<exists>x. completion e = CallFailed x) \<or> completion e = Parsed JNull)"
  proof (cases "to_string mv")
    case (Inl y)
    then have "handleAIConversation s mv (completion e) = Inl y" by (simp add: handleAIConversation_def)
    from f [OF this] Inl show ?thesis by (simp add: caught_status)
  next
    case (Inr u)
    note h = handleAIConversation_text [OF Inr, of s "completion e"]
    show ?thesis
    proof (cases "completion e")
      case (CallFailed y)
      then have "handleAIConversation s mv (completion e) = Inl y" using h by simp
      from f [OF this] Inr CallFailed show ?thesis by (simp add: caught_status)
    next
      case Unparsable
      then show ?thesis using c3 Inr by simp
    next
      case (Parsed v)
      then have hv: "handleAIConversation s mv (completion e) = Inr v" using h by simp
      show ?thesis
      proof (cases "v = JNull")
        case True
        then show ?thesis using n hv Inr Parsed by (simp add: caught_status)
      next
        case False
        then obtain d q where "destructure v = Inr (d, q)"
          by (cases "destructure v") (auto simp add: destructure_throws)
        from p [OF hv this] False Inr Parsed show ?thesis by simp
      qed
    qed
  qed
  show ?thesis using c1 c2 c3 c4 five by blast
qed

lemma unprintable_throws: "to_string unprintable = Inl (TypeError ''toString'')"
  by (simp add: unprintable_def)

theorem extraction_failures_witness:
  "missingFields (data (starting_session nothing ''abc'' (now quiet))) \<noteq> []
   \<and> completion quiet = Unparsable
   \<and> statusCode (fst (handler quiet (Body (Some (JStr ''abc'')) (Some (JStr ''hi''))) nothing)) = 200
   \<and> body (fst (handler quiet (Body (Some (JStr ''abc'')) (Some (JStr ''hi''))) nothing))
       = Progress (Some (JStr clarification)) (Some 0) 10
   \<and> to_string unprintable = Inl (TypeError ''toString'')
   \<and> statusCode (fst (handler quiet (Body (Some (JStr ''abc'')) (Some unprintable)) nothing)) = 500
   \<and> body (fst (handler quiet (Body (Some (JStr ''abc'')) (Some unprintable)) nothing))
       = Failure ''Database connection error'' (TypeError ''toString'')"
proof -
  have h: "init quiet = Resolved ()" "truthy (Some (JStr ''abc''))" "truthy (Some (JStr ''hi''))"
    "to_string (JStr ''abc'') = Inr ''abc''" "lookup_session nothing ''abc'' \<noteq> Inherited"
    "missingFields (data (starting_session nothing ''abc'' (now quiet))) \<noteq> []"
    by (simp_all add: quiet_def lookup_nothing starting_nothing fresh_missing requiredFields_def)
  have u: "truthy (Some unprintable)" by (simp add: unprintable_def)
  have c: "completion quiet = Unparsable" by (simp add: quiet_def)
  have k: "handleAIConversation x unprintable y = Inl (TypeError ''toString'')" for x y
    by (simp add: handleAIConversation_def unprintable_throws)
  note t = extraction_failures [OF h surjective_pairing, of "JStr ''hi''" "''hi''"]
  note v = extraction_failures [OF h(1,2) u h(4,5,6) surjective_pairing, of _ _ _ _ "TypeError ''toString''"]
  have 1: "statusCode (fst (handler quiet (Body (Some (JStr ''abc'')) (Some (JStr ''hi''))) nothing)) = 200
     \<and> body (fst (handler quiet (Body (Some (JStr ''abc'')) (Some (JStr ''hi''))) nothing))
       = Progress (Some (JStr clarification)) (Some 0) 10"
    using t c by (simp add: starting_nothing fresh_missing) (simp add: requiredFields_def)
  have 2: "statusCode (fst (handler quiet (Body (Some (JStr ''abc'')) (Some unprintable)) nothing)) = 500
     \<and> body (fst (handler quiet (Body (Some (JStr ''abc'')) (Some unprintable)) nothing))
       = Failure ''Database connection error'' (TypeError ''toString'')"
    using v k by simp
  show ?thesis using 1 2 h(6) c unprintable_throws by simp
qed

section \<open>The step reported while fields are missing\<close>

lemma extracting_parsed:
  "handleAIConversation x (JStr jane) (completion extracting) = Inr (JObj
     [(''data'', JObj [(''patientName'', JStr ''Jane Doe''), (''email'', JStr ''jane@example.com'')]),
      (''nextPrompt'', JStr ''What is your phone number?'')])"
  "destructure (JObj
     [(''data'', JObj [(''patientName'', JStr ''Jane Doe''), (''email'', JStr ''jane@example.com'')]),
      (''nextPrompt'', JStr ''What is your phone number?'')])
     = Inr (Some (JObj [(''patientName'', JStr ''Jane Doe''), (''email'', JStr ''jane@example.com'')]),
            Some (JStr ''What is your phone number?''))"
  "own_props (Some (JObj [(''patientName'', JStr ''Jane Doe''), (''email'', JStr ''jane@example.com'')])) = two_fields"
  by (simp_all add: extracting_def quiet_def handleAIConversation_def two_fields_def)

lemma extracting_env: "init extracting = Resolved ()" "now extracting = 2000"
  by (simp_all add: extracting_def quiet_def)

lemma two_fields_missing:
  "missingFields two_fields = [''dob'', ''phone'', ''doctor'', ''service'', ''time'', ''status'', ''action'', ''chiefComplaint'']"
  by (simp add: missingFields_def requiredFields_def two_fields_def)

lemma jane_nonempty: "jane \<noteq> []"
  by (simp add: jane_def)

lemma first_turn:
  "handler extracting (Fields (Some ''abc'') (Some jane)) nothing
     = (\<lparr> statusCode = 200, headers = defaultHeaders,
          body = Progress (Some (JStr ''What is your phone number?'')) (Some 2) 10 \<rparr>,
        nothing\<lparr> sessions := [''abc'' \<mapsto> \<lparr> step = 0, data = two_fields, lastActive = 2000, started = False \<rparr>] \<rparr>)"
proof -
  have "handler extracting (Fields (Some ''abc'') (Some jane)) nothing
          = turn extracting ''abc'' (JStr ''abc'') (JStr jane) (starting_session nothing ''abc'' (now extracting)) nothing"
    by (rule handler_turn) (simp_all add: extracting_env lookup_nothing jane_nonempty)
  also have "\<dots> = (\<lparr> statusCode = 200, headers = defaultHeaders,
          body = Progress (Some (JStr ''What is your phone number?''))
                   (Some (length requiredFields - length (missingFields (data (fresh (now extracting)) ++ two_fields))))
                   (length requiredFields) \<rparr>,
        nothing\<lparr> sessions := (sessions nothing)(''abc'' \<mapsto> (fresh (now extracting))\<lparr> lastActive := now extracting, data := data (fresh (now extracting)) ++ two_fields \<rparr>) \<rparr>)"
    unfolding starting_nothing
    using turn_extract [where s = "fresh (now extracting)" and e = extracting and key = "''abc''"
        and sv = "JStr ''abc''" and st = nothing, OF _ extracting_parsed(1,2)]
    by (simp add: fresh_missing two_fields_def requiredFields_def)
  finally show ?thesis
    by (simp add: extracting_env fresh_def two_fields_def missingFields_def requiredFields_def nothing_def)
qed

lemma handler7_body:
  "init7 e = Resolved () \<Longrightarrow> truthy (Some sv) \<Longrightarrow> truthy (Some mv) \<Longrightarrow> to_string sv = Inr key
   \<Longrightarrow> sessions7 st key \<noteq> None \<or> key \<notin> set objectPrototypeKeys
   \<Longrightarrow> handler7 e (Body (Some sv) (Some mv)) st = turn7 e key sv mv (starting_session7 st key) st"
  by (cases "sessions7 st key") (auto simp add: handler7_def starting_session7_def)

lemma turn7_step:
  assumes "step s < 7" and "to_string mv = Inr t" and "aiResponse e = Resolved reply"
  shows "turn7 e key sv mv s st
           = (\<lparr> statusCode = 200, headers = defaultHeaders,
                body = Progress (Some (JStr reply)) (Some (step s + 1)) 7 \<rparr>,
              st\<lparr> sessions7 := (sessions7 st)(key \<mapsto>
                    \<lparr> step = step s + 1,
                      data = (if 0 < step s then (data s)(appointmentFields ! (step s - 1) \<mapsto> mv) else data s) \<rparr>) \<rparr>)"
  using assms by (cases s) (simp add: turn7_def getAIResponse_def Let_def appointmentFields_def)

lemma handler7_first:
  assumes "init7 e = Resolved ()" and "aiResponse e = Resolved reply"
    and "sessions7 st sid = None" and "sid \<notin> set objectPrototypeKeys" and "sid \<noteq> []" and "msg \<noteq> []"
  shows "handler7 e (Fields (Some sid) (Some msg)) st
           = (\<lparr> statusCode = 200, headers = defaultHeaders,
                body = Progress (Some (JStr reply)) (Some 1) 7 \<rparr>,
              st\<lparr> sessions7 := (sessions7 st)(sid \<mapsto> \<lparr> step = 1, data = Map.empty \<rparr>) \<rparr>)"
  using assms
  by (simp add: handler7_def Fields_def turn7_def getAIResponse_def Let_def appointmentFields_def)

lemma handler7_books:
  assumes "init7 e = Resolved ()" and "insertOne7 e = Resolved ()" and "aiResponse e = Resolved reply"
    and "sessions7 st sid = Some s" and "step s = 7" and "sid \<noteq> []" and "msg \<noteq> []"
  shows "handler7 e (Fields (Some sid) (Some msg)) st
           = (\<lparr> statusCode = 200, headers = defaultHeaders,
                body = Booking reply ((data s)(''time'' \<mapsto> JStr msg, ''createdAt'' \<mapsto> JDate (createdAt7 e),
                                             ''sessionId'' \<mapsto> JStr sid)) \<rparr>,
              st\<lparr> sessions7 := (sessions7 st)(sid := None),
                  aws := aws st @ [(data s)(''time'' \<mapsto> JStr msg, ''createdAt'' \<mapsto> JDate (createdAt7 e),
                                            ''sessionId'' \<mapsto> JStr sid)] \<rparr>)
       \<and> ((data s)(''time'' \<mapsto> JStr msg, ''createdAt'' \<mapsto> JDate (createdAt7 e), ''sessionId'' \<mapsto> JStr sid)) ''status''
           = data s ''status''"
  using assms
  by (simp add: handler7_def Fields_def turn7_def getAIResponse_def Let_def appointmentFields_def)

lemma jane_extracted:
  "extractAppointmentInfo jane
     = \<lparr> name = Some ''Jane Doe'', email = Some ''jane@example.com'', phone = None,
         service = None, preferredDate = None, preferredTime = None \<rparr>"
  unfolding jane_def by code_simp

text \<open>
  The handler with seven fields stores the message under the field it asked for in the
  call before and counts calls: the first call stores nothing and reports step 1 of 7,
  whatever the message says.
\<close>

theorem seven_fields_first_turn:
  "handler7 quiet7 (Fields (Some ''abc'') (Some jane)) nothing7
     = (\<lparr> statusCode = 200, headers = defaultHeaders,
          body = Progress (Some (JStr ''What is your full name?'')) (Some 1) 7 \<rparr>,
        nothing7\<lparr> sessions7 := [''abc'' \<mapsto> \<lparr> step = 1, data = Map.empty \<rparr>] \<rparr>)"
proof -
  have "handler7 quiet7 (Fields (Some ''abc'') (Some jane)) nothing7
     = (\<lparr> statusCode = 200, headers = defaultHeaders,
          body = Progress (Some (JStr ''What is your full name?'')) (Some 1) 7 \<rparr>,
        nothing7\<lparr> sessions7 := (sessions7 nothing7)(''abc'' \<mapsto> \<lparr> step = 1, data = Map.empty \<rparr>) \<rparr>)"
    by (rule handler7_first) (simp_all add: quiet7_def nothing7_def objectPrototypeKeys_def jane_nonempty)
  then show ?thesis by (simp add: nothing7_def)
qed

text \<open>
  Claim C6, amended. In the slot-filling handler, when a call reaches the extraction (the
  initialisation succeeds, \<open>sessionId\<close> and \<open>message\<close> are truthy, a session is found or
  created under the property key of \<open>sessionId\<close>, a required field is missing in it) and
  the extraction returns a value other than \<open>null\<close>, the reply carries
  \<open>step = 10 - |missing|\<close> and \<open>totalSteps = 10\<close>, where \<open>missing\<close> is computed from the
  collected data after the merge, which is what the session then holds. In the handler
  with seven fields, when the initialisation and the completion call succeed, \<open>sessionId\<close>
  and \<open>message\<close> are truthy and can be converted to strings, and the session is at step
  \<open>n < 7\<close> (a session stored under the key, or a new one at step 0 when the key names
  nothing that \<open>Object.prototype\<close> provides), the call stores the message under the
  \<open>n\<close>-th field, nothing when \<open>n = 0\<close>, and the reply carries \<open>step = n + 1\<close> and
  \<open>totalSteps = 7\<close>: a first call reports step 1 of 7 and has collected nothing. From the
  message of the scenario \<open>extractAppointmentInfo\<close> extracts the name \<open>Jane Doe\<close> and the
  email \<open>jane@example.com\<close> and nothing else.
\<close>

theorem progress_annotation:
  assumes "init e = Resolved ()" and "truthy (Some sv)" and "truthy (Some mv)"
    and "to_string sv = Inr key" and "lookup_session st key \<noteq> Inherited"
    and "missingFields (data (starting_session st key (now e))) \<noteq> []"
    and "handleAIConversation ((starting_session st key (now e))\<lparr> lastActive := now e \<rparr>) mv (completion e) = Inr v"
    and "destructure v = Inr (d, p)"
    and "handler e (Body (Some sv) (Some mv)) st = (r, st')"
    and "init7 e7 = Resolved ()" and "truthy (Some sv7)" and "truthy (Some mv7)"
    and "to_string sv7 = Inr key7" and "to_string mv7 = Inr text7"
    and "aiResponse e7 = Resolved reply"
    and "sessions7 st7 key7 \<noteq> None \<or> key7 \<notin> set objectPrototypeKeys"
    and "step (starting_session7 st7 key7) < 7"
    and "handler7 e7 (Body (Some sv7) (Some mv7)) st7 = (r7, st7')"
  defines "after \<equiv> data (starting_session st key (now e)) ++ own_props d"
    and "s7 \<equiv> starting_session7 st7 key7"
  shows "body r = Progress p (Some (length requiredFields - length (missingFields after))) (length requiredFields)
       \<and> length requiredFields = 10
       \<and> map_option data (sessions st' key) = Some after
       \<and> body r7 = Progress (Some (JStr reply)) (Some (step s7 + 1)) 7
       \<and> sessions7 st7' key7
           = Some \<lparr> step = step s7 + 1,
                    data = (if 0 < step s7 then (data s7)(appointmentFields ! (step s7 - 1) \<mapsto> mv7)
                            else data s7) \<rparr>
       \<and> (sessions7 st7 key7 = None \<longrightarrow>
            body r7 = Progress (Some (JStr reply)) (Some 1) 7
            \<and> sessions7 st7' key7 = Some \<lparr> step = 1, data = Map.empty \<rparr>)
       \<and> extractAppointmentInfo jane
           = \<lparr> name = Some ''Jane Doe'', email = Some ''jane@example.com'', phone = None,
               service = None, preferredDate = None, preferredTime = None \<rparr>"
proof -
  have "(r, st') = turn e key sv mv (starting_session st key (now e)) st"
    using assms(1-5,9) by (simp add: handler_body)
  then have a: "(r, st') = (\<lparr> statusCode = 200, headers = defaultHeaders,
          body = Progress p (Some (length requiredFields - length (missingFields after))) (length requiredFields) \<rparr>,
        st\<lparr> sessions := (sessions st)(key \<mapsto> (starting_session st key (now e))\<lparr> lastActive := now e, data := after \<rparr>) \<rparr>)"
    using turn_extract [OF assms(6,7,8)] by (simp add: after_def)
  have "(r7, st7') = turn7 e7 key7 sv7 mv7 s7 st7"
    using assms(10-13,16,18) by (simp add: handler7_body s7_def)
  then have b: "(r7, st7') = (\<lparr> statusCode = 200, headers = defaultHeaders,
                body = Progress (Some (JStr reply)) (Some (step s7 + 1)) 7 \<rparr>,
              st7\<lparr> sessions7 := (sessions7 st7)(key7 \<mapsto>
                    \<lparr> step = step s7 + 1,
                      data = (if 0 < step s7 then (data s7)(appointmentFields ! (step s7 - 1) \<mapsto> mv7) else data s7) \<rparr>) \<rparr>)"
    using turn7_step [OF _ assms(14,15), of s7] assms(17) by (simp add: s7_def)
  have c: "sessions7 st7 key7 = None \<Longrightarrow> s7 = \<lparr> step = 0, data = Map.empty \<rparr>"
    by (simp add: s7_def starting_session7_def)
  have 1: "body r = Progress p (Some (length requiredFields - length (missingFields after))) (length requiredFields)"
    using a by simp
  have 2: "map_option data (sessions st' key) = Some after" using a by simp
  have 3: "body r7 = Progress (Some (JStr reply)) (Some (step s7 + 1)) 7" using b by simp
  have 4: "sessions7 st7' key7
           = Some \<lparr> step = step s7 + 1,
                    data = (if 0 < step s7 then (data s7)(appointmentFields ! (step s7 - 1) \<mapsto> mv7)
                            else data s7) \<rparr>"
    using b by simp
  have 5: "sessions7 st7 key7 = None \<longrightarrow>
            body r7 = Progress (Some (JStr reply)) (Some 1) 7
            \<and> sessions7 st7' key7 = Some \<lparr> step = 1, data = Map.empty \<rparr>"
    using 3 4 c by simp
  have 6: "length requiredFields = 10" by (simp add: requiredFields_def)
  show ?thesis using 1 2 3 4 5 6 jane_extracted by blast
qed

lemma asked_name7_abc: "sessions7 asked_name7 ''abc'' = Some \<lparr> step = 1, data = Map.empty \<rparr>"
  "starting_session7 asked_name7 ''abc'' = \<lparr> step = 1, data = Map.empty \<rparr>"
  by (simp_all add: asked_name7_def starting_session7_def)

theorem progress_annotation_witness:
  "missingFields (data (starting_session nothing ''abc'' (now extracting))) \<noteq> []
   \<and> body (fst (handler extracting (Body (Some (JStr ''abc'')) (Some (JStr jane))) nothing))
       = Progress (Some (JStr ''What is your phone number?'')) (Some 2) 10
   \<and> map_option data (sessions (snd (handler extracting (Body (Some (JStr ''abc'')) (Some (JStr jane))) nothing)) ''abc'')
       = Some two_fields
   \<and> step (starting_session7 asked_name7 ''abc'') = 1
   \<and> body (fst (handler7 quiet7 (Body (Some (JStr ''abc'')) (Some (JStr jane))) asked_name7))
       = Progress (Some (JStr ''What is your full name?'')) (Some 2) 7
   \<and> sessions7 (snd (handler7 quiet7 (Body (Some (JStr ''abc'')) (Some (JStr jane))) asked_name7)) ''abc''
       = Some \<lparr> step = 2, data = [''name'' \<mapsto> JStr jane] \<rparr>"
proof -
  have h: "init extracting = Resolved ()" "truthy (Some (JStr ''abc''))" "truthy (Some (JStr jane))"
    "to_string (JStr ''abc'') = Inr ''abc''" "lookup_session nothing ''abc'' \<noteq> Inherited"
    "missingFields (data (starting_session nothing ''abc'' (now extracting))) \<noteq> []"
    by (simp_all add: extracting_env jane_nonempty lookup_nothing starting_nothing fresh_missing requiredFields_def)
  have g: "init7 quiet7 = Resolved ()" "truthy (Some (JStr ''abc''))" "truthy (Some (JStr jane))"
    "to_string (JStr ''abc'') = Inr ''abc''" "to_string (JStr jane) = Inr jane"
    "aiResponse quiet7 = Resolved ''What is your full name?''"
    "sessions7 asked_name7 ''abc'' \<noteq> None \<or> ''abc'' \<notin> set objectPrototypeKeys"
    "step (starting_session7 asked_name7 ''abc'') < 7"
    by (simp_all add: quiet7_def asked_name7_abc jane_nonempty)
  note t = progress_annotation [OF h extracting_parsed(1,2) surjective_pairing g surjective_pairing]
  have 1: "body (fst (handler extracting (Body (Some (JStr ''abc'')) (Some (JStr jane))) nothing))
       = Progress (Some (JStr ''What is your phone number?'')) (Some 2) 10
   \<and> map_option data (sessions (snd (handler extracting (Body (Some (JStr ''abc'')) (Some (JStr jane))) nothing)) ''abc'')
       = Some two_fields"
    using t by (simp add: starting_nothing fresh_def two_fields_def missingFields_def requiredFields_def)
  have 2: "body (fst (handler7 quiet7 (Body (Some (JStr ''abc'')) (Some (JStr jane))) asked_name7))
       = Progress (Some (JStr ''What is your full name?'')) (Some 2) 7
   \<and> sessions7 (snd (handler7 quiet7 (Body (Some (JStr ''abc'')) (Some (JStr jane))) asked_name7)) ''abc''
       = Some \<lparr> step = 2, data = [''name'' \<mapsto> JStr jane] \<rparr>"
    using t by (simp add: asked_name7_abc appointmentFields_def)
  show ?thesis using 1 2 h(6) by (simp add: asked_name7_abc)
qed

section \<open>The idle sweep\<close>

lemma sweep_sessions:
  "sessions (sweep t st) k =
     (case sessions st k of None \<Rightarrow> None | Some s \<Rightarrow> if 15 * 60 * 1000 < t - lastActive s then None else Some s)"
  by (simp add: sweep_def)

lemma sweep_inherited: "inherited (sweep t st) k = inherited st k"
  by (simp add: inherited_def sweep_def)

text \<open>
  The sweep is registered with a period of 60 seconds. It deletes the sessions whose
  \<open>lastActive\<close> is more than 15 minutes before the time of the sweep and no other; a
  session that was active within the last 15 minutes is kept as it is. After a session has
  been deleted, the next call with its key, when the key names nothing that
  \<open>Object.prototype\<close> provides, is a call for a new session whose collected mapping is empty.
\<close>

lemma idle_sweep:
  assumes "sessions st sid = Some s" and "15 * 60 * 1000 < t - lastActive s"
    and "\<not> inherited st sid" and "init e = Resolved ()" and "sid \<noteq> []" and "msg \<noteq> []"
  shows "sweepPeriod = 60 * 1000
       \<and> (\<forall>k. (sessions (sweep t st) k = None)
               = (sessions st k = None \<or> (\<exists>x. sessions st k = Some x \<and> 15 * 60 * 1000 < t - lastActive x)))
       \<and> (\<forall>k x. sessions st k = Some x \<and> t - lastActive x \<le> 15 * 60 * 1000
               \<longrightarrow> sessions (sweep t st) k = Some x)
       \<and> sessions (sweep t st) sid = None
       \<and> handler e (Fields (Some sid) (Some msg)) (sweep t st)
           = turn e sid (JStr sid) (JStr msg) (fresh (now e)) (sweep t st)
       \<and> data (fresh (now e)) = Map.empty"
proof -
  have 1: "sessions (sweep t st) sid = None" using assms(1,2) by (simp add: sweep_sessions)
  have 2: "handler e (Fields (Some sid) (Some msg)) (sweep t st)
             = turn e sid (JStr sid) (JStr msg) (fresh (now e)) (sweep t st)"
    using 1 assms(3-6) by (simp add: handler_absent sweep_inherited)
  have 3: "(sessions (sweep t st) k = None)
               = (sessions st k = None \<or> (\<exists>x. sessions st k = Some x \<and> 15 * 60 * 1000 < t - lastActive x))" for k
    by (cases "sessions st k") (simp_all add: sweep_sessions)
  have 4: "sessions st k = Some x \<and> t - lastActive x \<le> 15 * 60 * 1000 \<longrightarrow> sessions (sweep t st) k = Some x" for k x
    by (simp add: sweep_sessions)
  show ?thesis using 1 2 3 4 by (simp add: sweepPeriod_def fresh_def)
qed

lemma pair_abc: "sessions pair ''abc'' = Some \<lparr> step = 0, data = collected, lastActive = 1000, started = False \<rparr>"
  by (simp add: pair_def)

lemma pair_other: "sessions pair ''def'' = Some \<lparr> step = 0, data = Map.empty, lastActive = 500000, started = False \<rparr>"
  by (simp add: pair_def)

lemma not_inherited_pair: "\<not> inherited pair ''abc''"
  by (simp add: inherited_def objectPrototypeKeys_def pair_def)

lemma idle_sweep_example:
  "sessions pair ''abc'' = Some \<lparr> step = 0, data = collected, lastActive = 1000, started = False \<rparr>
   \<and> (15 * 60 * 1000 < 901001 - lastActive \<lparr> step = 0, data = collected, lastActive = 1000, started = False \<rparr>)
   \<and> sessions (sweep 901001 pair) ''abc'' = None
   \<and> sessions (sweep 901001 pair) ''def'' = Some \<lparr> step = 0, data = Map.empty, lastActive = 500000, started = False \<rparr>
   \<and> handler quiet (Fields (Some ''abc'') (Some ''hi'')) (sweep 901001 pair)
       = turn quiet ''abc'' (JStr ''abc'') (JStr ''hi'') (fresh 2000) (sweep 901001 pair)"
proof -
  have h: "sessions pair ''abc'' = Some \<lparr> step = 0, data = collected, lastActive = 1000, started = False \<rparr>"
    "15 * 60 * 1000 < 901001 - lastActive \<lparr> step = 0, data = collected, lastActive = 1000, started = False \<rparr>"
    "\<not> inherited pair ''abc''" "init quiet = Resolved ()" "''abc'' \<noteq> []" "''hi'' \<noteq> []"
    by (simp_all add: pair_abc not_inherited_pair quiet_def)
  have n: "now quiet = 2000" by (simp add: quiet_def)
  note t = idle_sweep [OF h]
  have d: "sessions (sweep 901001 pair) ''def'' = Some \<lparr> step = 0, data = Map.empty, lastActive = 500000, started = False \<rparr>"
    using t pair_other by simp
  show ?thesis using t d h(1,2) by (simp add: n)
qed

lemma quiet_at_env: "init (quiet_at t) = Resolved ()" "now (quiet_at t) = t" "completion (quiet_at t) = Unparsable"
  by (simp_all add: quiet_at_def quiet_def)

lemma own_props_empty: "own_props (Some (JObj [])) = Map.empty"
  by simp

lemma first_call_lastActive:
  "handler (quiet_at 1000) (Fields (Some ''lastActive'') (Some ''hi'')) nothing
     = (\<lparr> statusCode = 200, headers = defaultHeaders,
          body = Progress (Some (JStr clarification)) (Some 0) 10 \<rparr>,
        nothing\<lparr> sessions := [''lastActive'' \<mapsto> \<lparr> step = 0, data = Map.empty, lastActive = 1000, started = False \<rparr>] \<rparr>)"
proof -
  have a: "\<not> inherited nothing ''lastActive''"
    by (simp add: inherited_def objectPrototypeKeys_def nothing_def)
  have b: "sessions nothing ''lastActive'' = None" by (simp add: nothing_def)
  have "handler (quiet_at 1000) (Fields (Some ''lastActive'') (Some ''hi'')) nothing
          = turn (quiet_at 1000) ''lastActive'' (JStr ''lastActive'') (JStr ''hi'') (fresh (now (quiet_at 1000))) nothing"
    by (rule handler_absent) (simp_all add: quiet_at_env a b)
  also have "\<dots> = (\<lparr> statusCode = 200, headers = defaultHeaders,
          body = Progress (Some (JStr clarification))
                   (Some (length requiredFields - length (missingFields (data (fresh (now (quiet_at 1000))) ++ own_props (Some (JObj []))))))
                   (length requiredFields) \<rparr>,
        nothing\<lparr> sessions := (sessions nothing)(''lastActive'' \<mapsto> (fresh (now (quiet_at 1000)))\<lparr> lastActive := now (quiet_at 1000),
              data := data (fresh (now (quiet_at 1000))) ++ own_props (Some (JObj [])) \<rparr>) \<rparr>)"
    by (rule turn_extract [OF _ _ destructure_fallback])
       (simp_all add: fresh_missing requiredFields_def quiet_at_env handleAIConversation_def)
  finally show ?thesis
    by (simp add: quiet_at_env fresh_def missingFields_def requiredFields_def nothing_def)
qed

text \<open>
  Claim C7 says that after the sweep has deleted a session the next call with its key
  creates a new session. \<open>sessions\<close> is a plain object: a call with the key \<open>__proto__\<close> finds
  \<open>Object.prototype\<close> and writes \<open>lastActive\<close> to it, and from then on \<open>sessions['lastActive']\<close>
  is that time stamp wherever no session is stored under the key. Here a session is created
  under \<open>lastActive\<close> at 1000, a call with \<open>__proto__\<close> follows at 1500, and the sweep at
  901001 deletes the session; the call with the key \<open>lastActive\<close> that follows is answered
  with 500 and no session is created.
\<close>

theorem inherited_key_not_recreated:
  "handler (quiet_at 1500) (Fields (Some ''__proto__'') (Some ''hi''))
       (snd (handler (quiet_at 1000) (Fields (Some ''lastActive'') (Some ''hi'')) nothing))
     = (caught (TypeError ''patientName''), polluted)
   \<and> sessions polluted ''lastActive'' = Some \<lparr> step = 0, data = Map.empty, lastActive = 1000, started = False \<rparr>
   \<and> 15 * 60 * 1000 < 901001 - lastActive \<lparr> step = 0, data = Map.empty, lastActive = 1000, started = False \<rparr>
   \<and> sessions (sweep 901001 polluted) ''lastActive'' = None
   \<and> handler (quiet_at 902000) (Fields (Some ''lastActive'') (Some ''hi'')) (sweep 901001 polluted)
       = (\<lparr> statusCode = 500, headers = defaultHeaders,
            body = Failure ''Database connection error'' (TypeError ''patientName'') \<rparr>,
          sweep 901001 polluted)"
proof -
  have 1: "handler (quiet_at 1500) (Fields (Some ''__proto__'') (Some ''hi''))
       (snd (handler (quiet_at 1000) (Fields (Some ''lastActive'') (Some ''hi'')) nothing))
     = (caught (TypeError ''patientName''), polluted)"
    unfolding first_call_lastActive
    by (simp add: handler_def Fields_def quiet_at_env lookup_session_def inherited_def objectPrototypeKeys_def
        nothing_def polluted_def)
  have 2: "sessions (sweep 901001 polluted) ''lastActive'' = None"
    by (simp add: sweep_sessions polluted_def)
  have 3: "lookup_session (sweep 901001 polluted) ''lastActive'' = Inherited"
    by (simp add: lookup_session_def 2 sweep_inherited) (simp add: inherited_def polluted_def)
  have 4: "handler (quiet_at 902000) (Fields (Some ''lastActive'') (Some ''hi'')) (sweep 901001 polluted)
       = (caught (TypeError ''patientName''), sweep 901001 polluted)"
    by (simp add: handler_def Fields_def quiet_at_env 3)
  show ?thesis using 1 2 4 by (simp add: caught_def) (simp add: polluted_def)
qed

theorem inherited_key_not_recreated_witness:
  "statusCode (fst (handler (quiet_at 902000) (Fields (Some ''lastActive'') (Some ''hi'')) (sweep 901001 polluted))) = 500
   \<and> sessions (snd (handler (quiet_at 902000) (Fields (Some ''lastActive'') (Some ''hi'')) (sweep 901001 polluted)))
         ''lastActive'' = None"
  using inherited_key_not_recreated by simp

section \<open>Validation of the input\<close>

lemma validateInput_valid:
  "(validateInput a b = Valid) = (spec_input_ok 100 a \<and> spec_input_ok 4000 b)"
  by (cases a rule: is_string.cases; cases b rule: is_string.cases)
     (auto simp add: validateInput_def spec_input_ok_def)

lemma validateInput_names_field:
  "validateInput a b = Invalid err \<Longrightarrow>
     (startsWith err ''sessionId'' \<and> \<not> spec_input_ok 100 a) \<or> (startsWith err ''message'' \<and> \<not> spec_input_ok 4000 b)"
  by (cases a rule: is_string.cases; cases b rule: is_string.cases)
     (auto simp add: validateInput_def spec_input_ok_def split: if_splits)

lemma turn_status: "statusCode (fst (turn e key sv mv s st)) \<noteq> 400"
  by (simp add: turn_def Let_def caught_def split: outcome.splits sum.splits prod.splits)

lemma handler_body_status:
  assumes "init e = Resolved ()"
  shows "(statusCode (fst (handler e (Body a b) st)) = 400) = (\<not> truthy a \<or> \<not> truthy b)"
proof (cases a)
  case None
  then show ?thesis using assms by (simp add: handler_def refusal_def)
next
  case (Some sv)
  note a = Some
  show ?thesis
  proof (cases b)
    case None
    then show ?thesis using assms a by (simp add: handler_def refusal_def)
  next
    case (Some mv)
    show ?thesis
    proof (cases "truthy (Some sv) \<and> truthy (Some mv)")
      case False
      then show ?thesis using assms a Some by (auto simp add: handler_def refusal_def)
    next
      case True
      then have "statusCode (fst (handler e (Body (Some sv) (Some mv)) st)) \<noteq> 400"
        using assms
        by (auto simp add: handler_def caught_def turn_status split: sum.splits found.splits)
      then show ?thesis using True a Some by simp
    qed
  qed
qed

lemma handler_refuses:
  "(statusCode (fst (handler e req st)) = 400)
     = (init e = Resolved () \<and> (\<exists>a b. req = Body a b \<and> (\<not> truthy a \<or> \<not> truthy b)))"
proof (cases "init e")
  case (Rejected err)
  then show ?thesis by (simp add: handler_def caught_def)
next
  case (Resolved u)
  then have i: "init e = Resolved ()" by simp
  show ?thesis
  proof (cases req)
    case Malformed
    then show ?thesis using i by (simp add: handler_def caught_def)
  next
    case Nullish
    then show ?thesis using i by (simp add: handler_def caught_def)
  next
    case (Body a b)
    then show ?thesis using i handler_body_status [OF i, of a b st] by simp
  qed
qed

lemma handler_checks_post:
  "httpMethod ev = Some ''POST'' \<Longrightarrow> raw ev = Json v \<Longrightarrow> v \<noteq> JNull \<Longrightarrow>
     handler_checks ev =
       (case validateInput (read_prop v ''sessionId'') (read_prop v ''message'') of
          Invalid x \<Rightarrow> Inr (Inl \<lparr> statusCode = 400, headers = defaultHeaders, body = Refusal x \<rparr>)
        | Valid \<Rightarrow> Inr (Inr (str_of (read_prop v ''sessionId''), str_of (read_prop v ''message''))))"
  by (cases v) (auto simp add: handler_checks_def Let_def split: input_check.splits)

lemma inherited_short: "inherited st k \<Longrightarrow> length k \<le> 20"
  by (auto simp add: inherited_def objectPrototypeKeys_def)

lemma long_key_turn:
  "handler quiet (Fields (Some (replicate 101 CHR ''a'')) (Some ''hi'')) nothing
     = turn quiet (replicate 101 CHR ''a'') (JStr (replicate 101 CHR ''a'')) (JStr ''hi'') (fresh 2000) nothing"
proof -
  have "\<not> inherited nothing (replicate 101 CHR ''a'')"
    using inherited_short [of nothing "replicate 101 CHR ''a''"] by auto
  moreover have "sessions nothing (replicate 101 CHR ''a'') = None" by (simp add: nothing_def)
  moreover have "replicate 101 CHR ''a'' \<noteq> []" by simp
  ultimately have "handler quiet (Fields (Some (replicate 101 CHR ''a'')) (Some ''hi'')) nothing
     = turn quiet (replicate 101 CHR ''a'') (JStr (replicate 101 CHR ''a'')) (JStr ''hi'') (fresh (now quiet)) nothing"
    by (intro handler_absent) (simp_all add: quiet_def)
  then show ?thesis by (simp add: quiet_def)
qed

text \<open>
  The slot-filling handler tests only that \<open>sessionId\<close> and \<open>message\<close> are truthy: a call
  with a \<open>sessionId\<close> of 101 characters is processed and answered with 200.
\<close>

theorem long_session_key_accepted:
  "length (replicate 101 CHR ''a'') = 101
   \<and> statusCode (fst (handler quiet (Fields (Some (replicate 101 CHR ''a'')) (Some ''hi'')) nothing)) = 200
   \<and> body (fst (handler quiet (Fields (Some (replicate 101 CHR ''a'')) (Some ''hi'')) nothing))
       = Progress (Some (JStr clarification)) (Some 0) 10"
proof -
  have u: "handleAIConversation ((fresh 2000)\<lparr> lastActive := now quiet \<rparr>) (JStr ''hi'') (completion quiet)
             = Inr (JObj [(''data'', JObj []), (''nextPrompt'', JStr clarification)])"
    by (simp add: quiet_def handleAIConversation_def)
  have m: "missingFields (data (fresh 2000)) \<noteq> []" by (simp add: fresh_missing requiredFields_def)
  note t = turn_extract [OF m u destructure_fallback, of "replicate 101 CHR ''a''" "JStr (replicate 101 CHR ''a'')" nothing]
  show ?thesis unfolding long_key_turn t
    by (simp add: fresh_missing) (simp add: requiredFields_def)
qed

text \<open>
  Claim C8, amended. \<open>validateInput\<close> accepts exactly a \<open>sessionId\<close> that is a non-empty string
  of at most 100 characters together with a \<open>message\<close> that is a non-empty string of at most
  4000 characters; the error of a rejection begins with the name of a field that violates
  its constraint. The handlers that call \<open>validateInput\<close> answer a \<open>POST\<close> request whose
  body parses to a value other than \<open>null\<close> with 400 and that error, and go on with the two
  strings otherwise. The slot-filling handler answers 400 exactly when the initialisation
  succeeds, the body is a value other than \<open>null\<close> and \<open>undefined\<close>, and \<open>sessionId\<close> or
  \<open>message\<close> is falsy: absent, \<open>null\<close>, \<open>false\<close>, \<open>0\<close> or the empty string. It tests nothing
  else of the two, so their lengths are not limited.
\<close>

theorem input_validation:
  "(validateInput a b = Valid) = (spec_input_ok 100 a \<and> spec_input_ok 4000 b)
   \<and> (validateInput a b = Invalid err \<longrightarrow>
         (startsWith err ''sessionId'' \<and> \<not> spec_input_ok 100 a)
         \<or> (startsWith err ''message'' \<and> \<not> spec_input_ok 4000 b))
   \<and> (httpMethod ev = Some ''POST'' \<and> raw ev = Json v \<and> v \<noteq> JNull \<longrightarrow>
         handler_checks ev =
           (case validateInput (read_prop v ''sessionId'') (read_prop v ''message'') of
              Invalid x \<Rightarrow> Inr (Inl \<lparr> statusCode = 400, headers = defaultHeaders, body = Refusal x \<rparr>)
            | Valid \<Rightarrow> Inr (Inr (str_of (read_prop v ''sessionId''), str_of (read_prop v ''message'')))))
   \<and> ((statusCode (fst (handler e req st)) = 400)
         = (init e = Resolved () \<and> (\<exists>x y. req = Body x y \<and> (\<not> truthy x \<or> \<not> truthy y))))
   \<and> (truthy w = (w \<noteq> None \<and> w \<noteq> Some JNull \<and> w \<noteq> Some (JBool False)
                     \<and> w \<noteq> Some (JNum ''0'') \<and> w \<noteq> Some (JStr [])))"
proof -
  have t: "truthy w = (w \<noteq> None \<and> w \<noteq> Some JNull \<and> w \<noteq> Some (JBool False)
                     \<and> w \<noteq> Some (JNum ''0'') \<and> w \<noteq> Some (JStr []))"
    by (cases w rule: truthy.cases) auto
  show ?thesis
    using validateInput_valid [of a b] validateInput_names_field [of a b err]
      handler_checks_post [of ev v] handler_refuses [of e req st] t
    by blast
qed

lemma long_id_invalid:
  "validateInput (Some (JStr (replicate 101 CHR ''a''))) (Some (JStr ''hi''))
     = Invalid ''sessionId too long (max 100 characters)''"
  by (simp add: validateInput_def)

theorem input_validation_witness:
  "httpMethod long_id = Some ''POST''
   \<and> handler_checks long_id
       = Inr (Inl \<lparr> statusCode = 400, headers = defaultHeaders,
                   body = Refusal ''sessionId too long (max 100 characters)'' \<rparr>)
   \<and> \<not> spec_input_ok 100 (Some (JStr (replicate 101 CHR ''a'')))
   \<and> statusCode (fst (handler quiet (Body (Some (JNum ''0'')) (Some (JStr ''hi''))) nothing)) = 400"
proof -
  note t = input_validation [of "Some (JStr (replicate 101 CHR ''a''))" "Some (JStr ''hi'')"
      "''sessionId too long (max 100 characters)''" long_id
      "JObj [(''sessionId'', JStr (replicate 101 CHR ''a'')), (''message'', JStr ''hi'')]"
      quiet "Body (Some (JNum ''0'')) (Some (JStr ''hi''))" nothing]
  have p: "httpMethod long_id = Some ''POST''"
    "raw long_id = Json (JObj [(''sessionId'', JStr (replicate 101 CHR ''a'')), (''message'', JStr ''hi'')])"
    by (simp_all add: long_id_def)
  have r: "read_prop (JObj [(''sessionId'', JStr (replicate 101 CHR ''a'')), (''message'', JStr ''hi'')]) ''sessionId''
             = Some (JStr (replicate 101 CHR ''a''))"
    "read_prop (JObj [(''sessionId'', JStr (replicate 101 CHR ''a'')), (''message'', JStr ''hi'')]) ''message''
             = Some (JStr ''hi'')"
    by (simp_all)
  have i: "init quiet = Resolved ()" by (simp add: quiet_def)
  show ?thesis using t p i unfolding r
    by (simp add: long_id_invalid)
qed

section \<open>Merging the same extraction twice\<close>

lemma map_add_twice: "(c ++ x) ++ x = c ++ x"
  by (rule ext) (simp add: map_add_def split: option.splits)

lemma merged_session: "merged s m c = merged s' m c"
  by (simp add: merged_def handleAIConversation_def)

lemma turn_merges:
  assumes "missingFields (data s) \<noteq> []"
  shows "sessions (snd (turn e key sv mv s st)) key
           = Some (s\<lparr> lastActive := now e, data := data s ++ merged s mv (completion e) \<rparr>)"
proof -
  have ms: "merged s mv (completion e) = merged (s\<lparr> lastActive := now e \<rparr>) mv (completion e)"
    by (rule merged_session)
  show ?thesis
    unfolding ms
  proof (cases "handleAIConversation (s\<lparr> lastActive := now e \<rparr>) mv (completion e)")
    case (Inl err)
    then show "sessions (snd (turn e key sv mv s st)) key
           = Some (s\<lparr> lastActive := now e,
                      data := data s ++ merged (s\<lparr> lastActive := now e \<rparr>) mv (completion e) \<rparr>)"
      using assms by (simp add: turn_extract_failed merged_def)
  next
    case (Inr v)
    show "sessions (snd (turn e key sv mv s st)) key
           = Some (s\<lparr> lastActive := now e,
                      data := data s ++ merged (s\<lparr> lastActive := now e \<rparr>) mv (completion e) \<rparr>)"
    proof (cases "destructure v")
      case (Inl err)
      then show ?thesis using assms Inr
        by (simp add: turn_destructure_failed merged_def)
    next
      case (Inr dp)
      then obtain d p where "destructure v = Inr (d, p)" by (cases dp) simp
      then show ?thesis
        using assms \<open>handleAIConversation (s\<lparr> lastActive := now e \<rparr>) mv (completion e) = Inr v\<close>
        by (simp add: turn_extract merged_def)
    qed
  qed
qed

lemma turn_complete:
  assumes "missingFields (data s) = []" and "sessions (snd (turn e key sv mv s st)) key = Some s'"
  shows "data s' = data s"
  using assms by (auto simp add: turn_def Let_def caught_def split: if_splits outcome.splits sum.splits)

lemma inherited_not_stored: "lookup_session st key = Inherited \<Longrightarrow> sessions st key = None"
  by (simp add: lookup_session_def split: option.splits)

lemma handler_inherited:
  assumes "lookup_session st key = Inherited" and "to_string sv = Inr key"
  shows "sessions (snd (handler e (Body (Some sv) (Some mv)) st)) key = None"
  using assms inherited_not_stored [OF assms(1)]
  by (cases "init e") (auto simp add: handler_def)

lemma renaming_parsed:
  "handleAIConversation x (JStr jane) (completion renaming) = Inr (JObj
     [(''data'', JObj [(''patientName'', JStr ''Jane'')]),
      (''nextPrompt'', JStr ''What is your phone number?'')])"
  "destructure (JObj
     [(''data'', JObj [(''patientName'', JStr ''Jane'')]),
      (''nextPrompt'', JStr ''What is your phone number?'')])
     = Inr (Some (JObj [(''patientName'', JStr ''Jane'')]), Some (JStr ''What is your phone number?''))"
  by (simp_all add: renaming_def quiet_def handleAIConversation_def)

lemma renaming_env: "init renaming = Resolved ()" "now renaming = 2000"
  by (simp_all add: renaming_def quiet_def)

lemma coughing_parsed:
  "handleAIConversation x (JStr complaint) (completion coughing) = Inr (JObj
     [(''data'', JObj [(''chiefComplaint'', JStr ''cough'')]),
      (''nextPrompt'', JStr ''Shall I book the appointment?'')])"
  "destructure (JObj
     [(''data'', JObj [(''chiefComplaint'', JStr ''cough'')]),
      (''nextPrompt'', JStr ''Shall I book the appointment?'')])
     = Inr (Some (JObj [(''chiefComplaint'', JStr ''cough'')]), Some (JStr ''Shall I book the appointment?''))"
  by (simp_all add: coughing_def quiet_def handleAIConversation_def)

lemma coughing_env: "init coughing = Resolved ()" "now coughing = 2000"
  by (simp_all add: coughing_def quiet_def)

lemma complaint_matches: "\<not> test (ci ''yes'') complaint" "test (ci ''no'') complaint" "complaint \<noteq> []"
  unfolding complaint_def by code_simp+

lemma nine_fields_missing: "missingFields nine_fields = [''chiefComplaint'']"
  by (simp add: missingFields_def requiredFields_def nine_fields_def collected_def)

lemma nine_fields_completed: "nine_fields(''chiefComplaint'' \<mapsto> JStr ''cough'') = collected"
  by (rule ext) (simp add: nine_fields_def collected_def)

lemma almost_abc: "sessions almost ''abc'' = Some \<lparr> step = 0, data = nine_fields, lastActive = 1000, started = False \<rparr>"
  by (simp add: almost_def)

lemma second_turn_renames:
  "handler renaming (Fields (Some ''abc'') (Some jane))
       (nothing\<lparr> sessions := [''abc'' \<mapsto> \<lparr> step = 0, data = two_fields, lastActive = 2000, started = False \<rparr>] \<rparr>)
     = (\<lparr> statusCode = 200, headers = defaultHeaders,
          body = Progress (Some (JStr ''What is your phone number?'')) (Some 2) 10 \<rparr>,
        nothing\<lparr> sessions := [''abc'' \<mapsto> \<lparr> step = 0, data = two_fields(''patientName'' \<mapsto> JStr ''Jane''),
                                            lastActive = 2000, started = False \<rparr>] \<rparr>)"
proof -
  let ?s = "\<lparr> step = 0, data = two_fields, lastActive = 2000, started = False \<rparr>"
  let ?st = "nothing\<lparr> sessions := [''abc'' \<mapsto> ?s] \<rparr>"
  have m: "missingFields (data ?s) \<noteq> []" by (simp add: two_fields_missing)
  have "handler renaming (Fields (Some ''abc'') (Some jane)) ?st
          = turn renaming ''abc'' (JStr ''abc'') (JStr jane) ?s ?st"
    by (rule handler_own) (simp_all add: renaming_env jane_nonempty)
  also have "\<dots> = (\<lparr> statusCode = 200, headers = defaultHeaders,
          body = Progress (Some (JStr ''What is your phone number?''))
                   (Some (length requiredFields
                          - length (missingFields (data ?s ++ own_props (Some (JObj [(''patientName'', JStr ''Jane'')]))))))
                   (length requiredFields) \<rparr>,
        ?st\<lparr> sessions := (sessions ?st)(''abc'' \<mapsto> ?s\<lparr> lastActive := now renaming,
                 data := data ?s ++ own_props (Some (JObj [(''patientName'', JStr ''Jane'')])) \<rparr>) \<rparr>)"
    by (rule turn_extract [OF m renaming_parsed])
  finally show ?thesis
    by (simp add: renaming_env two_fields_def missingFields_def requiredFields_def nothing_def)
qed

lemma complaint_first:
  "handler coughing (Fields (Some ''abc'') (Some complaint)) almost
     = (\<lparr> statusCode = 200, headers = defaultHeaders,
          body = Progress (Some (JStr ''Shall I book the appointment?'')) (Some 10) 10 \<rparr>,
        almost\<lparr> sessions := [''abc'' \<mapsto> \<lparr> step = 0, data = collected, lastActive = 2000, started = False \<rparr>] \<rparr>)"
proof -
  let ?s = "\<lparr> step = 0, data = nine_fields, lastActive = 1000, started = False \<rparr>"
  have m: "missingFields (data ?s) \<noteq> []" by (simp add: nine_fields_missing)
  have "handler coughing (Fields (Some ''abc'') (Some complaint)) almost
          = turn coughing ''abc'' (JStr ''abc'') (JStr complaint) ?s almost"
    by (rule handler_own) (simp_all add: coughing_env complaint_matches almost_abc)
  also have "\<dots> = (\<lparr> statusCode = 200, headers = defaultHeaders,
          body = Progress (Some (JStr ''Shall I book the appointment?''))
                   (Some (length requiredFields
                          - length (missingFields (data ?s ++ own_props (Some (JObj [(''chiefComplaint'', JStr ''cough'')]))))))
                   (length requiredFields) \<rparr>,
        almost\<lparr> sessions := (sessions almost)(''abc'' \<mapsto> ?s\<lparr> lastActive := now coughing,
                 data := data ?s ++ own_props (Some (JObj [(''chiefComplaint'', JStr ''cough'')])) \<rparr>) \<rparr>)"
    by (rule turn_extract [OF m coughing_parsed])
  finally show ?thesis
    by (simp add: coughing_env nine_fields_completed collected_complete almost_def)
       (simp add: requiredFields_def)
qed

lemma complaint_second:
  "handler coughing (Fields (Some ''abc'') (Some complaint))
       (almost\<lparr> sessions := [''abc'' \<mapsto> \<lparr> step = 0, data = collected, lastActive = 2000, started = False \<rparr>] \<rparr>)
     = (\<lparr> statusCode = 200, headers = defaultHeaders,
          body = Cancellation ''Appointment cancelled. If you want to start over, just say hi!'' \<rparr>,
        almost\<lparr> sessions := Map.empty \<rparr>)"
proof -
  let ?s = "\<lparr> step = 0, data = collected, lastActive = 2000, started = False \<rparr>"
  let ?st = "almost\<lparr> sessions := [''abc'' \<mapsto> ?s] \<rparr>"
  have "handler coughing (Fields (Some ''abc'') (Some complaint)) ?st
          = turn coughing ''abc'' (JStr ''abc'') (JStr complaint) ?s ?st"
    by (rule handler_own) (simp_all add: coughing_env complaint_matches)
  also have "\<dots> = (\<lparr> statusCode = 200, headers = defaultHeaders,
          body = Cancellation ''Appointment cancelled. If you want to start over, just say hi!'' \<rparr>,
        ?st\<lparr> sessions := (sessions ?st)(''abc'' := None) \<rparr>)"
    by (rule turn_cancelled) (simp_all add: collected_complete complaint_matches)
  finally show ?thesis by simp
qed

text \<open>
  The extraction is a completion call whose prompt holds the collected data, at a
  temperature of 0.5: the same message can be answered with other values. Here the
  message of the scenario is sent twice; the first extraction returns the name \<open>Jane Doe\<close>
  and the second the name \<open>Jane\<close>, which replaces the first. And when a message completes
  the fields, the same message sent again is not extracted from but read as the answer to
  the confirmation: the message \<open>It is nothing serious, a cough\<close> matches \<open>/no/i\<close> and the
  session with everything collected is deleted.
\<close>

theorem resubmitted_message_changes_collected:
  "map_option data (sessions (snd (handler extracting (Fields (Some ''abc'') (Some jane)) nothing)) ''abc'')
     = Some two_fields
   \<and> map_option data (sessions (snd (handler renaming (Fields (Some ''abc'') (Some jane))
         (snd (handler extracting (Fields (Some ''abc'') (Some jane)) nothing)))) ''abc'')
     = Some (two_fields(''patientName'' \<mapsto> JStr ''Jane''))
   \<and> two_fields ''patientName'' = Some (JStr ''Jane Doe'')
   \<and> map_option data (sessions (snd (handler coughing (Fields (Some ''abc'') (Some complaint)) almost)) ''abc'')
     = Some collected
   \<and> body (fst (handler coughing (Fields (Some ''abc'') (Some complaint))
         (snd (handler coughing (Fields (Some ''abc'') (Some complaint)) almost))))
     = Cancellation ''Appointment cancelled. If you want to start over, just say hi!''
   \<and> sessions (snd (handler coughing (Fields (Some ''abc'') (Some complaint))
         (snd (handler coughing (Fields (Some ''abc'') (Some complaint)) almost)))) ''abc'' = None"
  unfolding first_turn complaint_first snd_conv second_turn_renames complaint_second
  by (simp add: two_fields_def)

text \<open>
  Claim C9, amended. Take two successive calls of the slot-filling handler with the same
  truthy \<open>sessionId\<close> and \<open>message\<close>, both with a successful initialisation, such that the
  completion call ends in the second as it ended in the first and the session the first
  call leaves under the property key of \<open>sessionId\<close> still lacks a required field. Then the
  collected data after the second call is the collected data after the first. The merge
  itself, \<open>{...collected, ...data}\<close>, applied twice with the same \<open>data\<close> gives what it gives
  once.
\<close>

theorem merge_idempotent:
  assumes "init e1 = Resolved ()" and "init e2 = Resolved ()" and "completion e2 = completion e1"
    and "truthy (Some sv)" and "truthy (Some mv)" and "to_string sv = Inr key"
    and "handler e1 (Body (Some sv) (Some mv)) st = (r1, st1)"
    and "sessions st1 key = Some s1" and "missingFields (data s1) \<noteq> []"
    and "handler e2 (Body (Some sv) (Some mv)) st1 = (r2, st2)"
  shows "map_option data (sessions st2 key) = Some (data s1)
       \<and> (c ++ own_props d) ++ own_props d = c ++ own_props d"
proof -
  define s0 where "s0 = starting_session st key (now e1)"
  have l: "lookup_session st key \<noteq> Inherited"
    using handler_inherited [of st key sv e1 mv] assms(6,7,8) by auto
  have t1: "turn e1 key sv mv s0 st = (r1, st1)"
    using assms(1,4,5,6,7) l by (simp add: handler_body s0_def)
  have m0: "missingFields (data s0) \<noteq> []"
  proof
    assume "missingFields (data s0) = []"
    then have "data s1 = data s0" using turn_complete [of s0 e1 key sv mv st s1] t1 assms(8) by simp
    then show False using assms(9) \<open>missingFields (data s0) = []\<close> by simp
  qed
  have d1: "data s1 = data s0 ++ merged s0 mv (completion e1)"
    using turn_merges [OF m0, of e1 key sv mv st] t1 assms(8) by auto
  have k: "lookup_session st1 key \<noteq> Inherited" "starting_session st1 key (now e2) = s1"
    using assms(8) by (simp_all add: lookup_session_def starting_session_def)
  have t2: "turn e2 key sv mv s1 st1 = (r2, st2)"
    using handler_body [OF assms(2,4,5,6) k(1)] assms(10) by (simp add: k(2))
  have "sessions st2 key = Some (s1\<lparr> lastActive := now e2, data := data s1 ++ merged s1 mv (completion e2) \<rparr>)"
    using turn_merges [OF assms(9), of e2 key sv mv st1] t2 by simp
  then have "map_option data (sessions st2 key) = Some (data s1)"
    by (simp add: d1 assms(3) map_add_twice merged_session [of s1 _ _ s0])
  then show ?thesis by (simp add: map_add_twice)
qed

theorem merge_idempotent_witness:
  "sessions (snd (handler extracting (Body (Some (JStr ''abc'')) (Some (JStr jane))) nothing)) ''abc''
     = Some \<lparr> step = 0, data = two_fields, lastActive = 2000, started = False \<rparr>
   \<and> missingFields two_fields \<noteq> []
   \<and> map_option data (sessions (snd (handler extracting (Body (Some (JStr ''abc'')) (Some (JStr jane)))
         (snd (handler extracting (Body (Some (JStr ''abc'')) (Some (JStr jane))) nothing)))) ''abc'') = Some two_fields"
proof -
  have f: "Body (Some (JStr ''abc'')) (Some (JStr jane)) = Fields (Some ''abc'') (Some jane)"
    by (simp add: Fields_def)
  have s: "sessions (snd (handler extracting (Body (Some (JStr ''abc'')) (Some (JStr jane))) nothing)) ''abc''
     = Some \<lparr> step = 0, data = two_fields, lastActive = 2000, started = False \<rparr>"
    unfolding f by (simp add: first_turn)
  have m: "missingFields (data \<lparr> step = 0, data = two_fields, lastActive = 2000, started = False \<rparr>) \<noteq> []"
    by (simp add: two_fields_missing)
  have c: "completion extracting = completion extracting" "truthy (Some (JStr ''abc''))"
    "truthy (Some (JStr jane))" "to_string (JStr ''abc'') = Inr ''abc''"
    by (simp_all add: jane_nonempty)
  note t = merge_idempotent [OF extracting_env(1) extracting_env(1) c surjective_pairing s m surjective_pairing]
  show ?thesis using t s m by simp
qed

section \<open>The message store\<close>

text \<open>
  Claim C10. \<open>appendMessage\<close> throws a \<open>ReferenceError\<close> for \<open>getMessages\<close>, whatever the store,
  the session key and the message are; it never returns a store.
\<close>

theorem appendMessage_throws:
  "appendMessage st sessionId msg = Inl (ReferenceError ''getMessages'')"
  by (simp add: appendMessage_def appendMessage_scope_def)

theorem appendMessage_throws_witness:
  "appendMessage [''abc'' \<mapsto> [JObj [(''role'', JStr ''system''), (''content'', JStr ''be kind'')]]] ''abc''
     (JObj [(''role'', JStr ''assistant''), (''content'', JStr ''hello'')])
     = Inl (ReferenceError ''getMessages'')"
  using appendMessage_throws [of "[''abc'' \<mapsto> [JObj [(''role'', JStr ''system''), (''content'', JStr ''be kind'')]]]" "''abc''"
      "JObj [(''role'', JStr ''assistant''), (''content'', JStr ''hello'')]"]
  by simp

end
